theory Spec2Isabelle
  imports Main "HOL-Library.Sublist" "HOL-Library.List_Lexorder" "HOL-Library.Char_ord"
begin

section \<open>Go strings and the library functions the command line code calls\<close>

text \<open>
  A Go string is a sequence of bytes, here a \<open>string\<close> (a list of 8-bit characters).
  \<open>s[n:]\<close> is \<open>drop n s\<close> and \<open>s[:n]\<close> is \<open>take n s\<close>; every slice taken by the
  code is in range, which is noted where it is taken.
\<close>

definition HasPrefix :: "string \<Rightarrow> string \<Rightarrow> bool" where
  \<comment> \<open>\<open>strings.HasPrefix(s, p)\<close>\<close>
  "HasPrefix s p = prefix p s"

fun IndexByte :: "string \<Rightarrow> char \<Rightarrow> nat option" where
  \<comment> \<open>\<open>strings.IndexByte\<close>: the index of the first occurrence, Go's \<open>-1\<close> is \<open>None\<close>\<close>
  "IndexByte [] c = None"
| "IndexByte (x # xs) c = (if x = c then Some 0 else map_option Suc (IndexByte xs c))"

fun LastIndexByte :: "string \<Rightarrow> char \<Rightarrow> nat option" where
  \<comment> \<open>the index of the last occurrence (\<open>last\<close> in package net)\<close>
  "LastIndexByte [] c = None"
| "LastIndexByte (x # xs) c =
     (case LastIndexByte xs c of
        Some i \<Rightarrow> Some (Suc i)
      | None \<Rightarrow> if x = c then Some 0 else None)"

definition lowerByte :: "char \<Rightarrow> char" where
  "lowerByte c =
     (if CHR ''A'' \<le> c \<and> c \<le> CHR ''Z'' then char_of (of_char c + (32::nat)) else c)"

definition ToLower :: "string \<Rightarrow> string" where
  \<comment> \<open>\<open>strings.ToLower\<close> on ASCII letters. Bytes from 0x80 are kept as they are; Go maps
      them by the Unicode tables, to bytes that are again not ASCII or to \<open>i\<close> or \<open>k\<close>,
      so a lookup of the result among the ASCII keys of \<open>validTargets\<close> (none of which
      holds \<open>i\<close> or \<open>k\<close>) is decided the same way.\<close>
  "ToLower s = map lowerByte s"

fun Split :: "string \<Rightarrow> char \<Rightarrow> string list" where
  \<comment> \<open>\<open>strings.Split(s, sep)\<close> for a separator of one byte (the code passes \<open>","\<close>)\<close>
  "Split [] sep = [[]]"
| "Split (c # cs) sep =
     (if c = sep then [] # Split cs sep
      else (case Split cs sep of [] \<Rightarrow> [[c]] | w # ws \<Rightarrow> (c # w) # ws))"

fun Join :: "string list \<Rightarrow> string \<Rightarrow> string" where
  \<comment> \<open>\<open>strings.Join\<close>\<close>
  "Join [] sep = []"
| "Join [x] sep = x"
| "Join (x # y # ys) sep = x @ sep @ Join (y # ys) sep"

definition splitWithEmptyCheck :: "string \<Rightarrow> char \<Rightarrow> string list" where
  "splitWithEmptyCheck s sep = (if s = [] then [] else Split s sep)"

subsection \<open>strconv: decimal integers\<close>

definition isDigit :: "char \<Rightarrow> bool" where
  "isDigit c = (CHR ''0'' \<le> c \<and> c \<le> CHR ''9'')"

definition digitValue :: "char \<Rightarrow> nat" where
  "digitValue c = of_char c - 48"

fun parseDigits :: "string \<Rightarrow> nat \<Rightarrow> nat option" where
  "parseDigits [] n = Some n"
| "parseDigits (c # cs) n =
     (if isDigit c then parseDigits cs (n * 10 + digitValue c) else None)"

definition parseDecimal :: "string \<Rightarrow> int option" where
  \<comment> \<open>an optional sign and at least one decimal digit\<close>
  "parseDecimal s =
     (case s of
        [] \<Rightarrow> None
      | c # cs \<Rightarrow>
          if c = CHR ''+'' then (if cs = [] then None else map_option int (parseDigits cs 0))
          else if c = CHR ''-'' then
            (if cs = [] then None else map_option (\<lambda>n. - int n) (parseDigits cs 0))
          else map_option int (parseDigits s 0))"

datatype conv_error = ErrSyntax | ErrRange

definition ParseInt :: "string \<Rightarrow> nat \<Rightarrow> conv_error + int" where
  \<comment> \<open>\<open>strconv.ParseInt(s, 10, bitSize)\<close>\<close>
  "ParseInt s bitSize =
     (case parseDecimal s of
        None \<Rightarrow> Inl ErrSyntax
      | Some n \<Rightarrow>
          if - (2 ^ (bitSize - 1)) \<le> n \<and> n < 2 ^ (bitSize - 1) then Inr n else Inl ErrRange)"

definition Atoi :: "string \<Rightarrow> conv_error + int" where
  \<comment> \<open>\<open>strconv.Atoi\<close>, with Go's \<open>int\<close> of 64 bits\<close>
  "Atoi s = ParseInt s 64"

subsection \<open>net.SplitHostPort\<close>

datatype addr_error = AddrError string string

definition SplitHostPort :: "string \<Rightarrow> addr_error + (string \<times> string)" where
  \<comment> \<open>the host and the port of \<open>host:port\<close>, \<open>[host]:port\<close>; the port starts after the
      last colon\<close>
  "SplitHostPort hostport =
     (case LastIndexByte hostport CHR '':'' of
        None \<Rightarrow> Inl (AddrError ''missing port in address'' hostport)
      | Some i \<Rightarrow>
          if hd hostport = CHR ''['' then
            (case IndexByte hostport CHR '']'' of
               None \<Rightarrow> Inl (AddrError ''missing ']' in address'' hostport)
             | Some end \<Rightarrow>
                 if end + 1 = length hostport then
                   Inl (AddrError ''missing port in address'' hostport)
                 else if end + 1 \<noteq> i then
                   (if hostport ! (end + 1) = CHR '':''
                    then Inl (AddrError ''too many colons in address'' hostport)
                    else Inl (AddrError ''missing port in address'' hostport))
                 else if IndexByte (drop 1 hostport) CHR ''['' \<noteq> None then
                   Inl (AddrError ''unexpected '[' in address'' hostport)
                 else if IndexByte (drop (end + 1) hostport) CHR '']'' \<noteq> None then
                   Inl (AddrError ''unexpected ']' in address'' hostport)
                 else Inr (drop 1 (take end hostport), drop (i + 1) hostport))
          else
            if IndexByte (take i hostport) CHR '':'' \<noteq> None then
              Inl (AddrError ''too many colons in address'' hostport)
            else if IndexByte hostport CHR ''['' \<noteq> None then
              Inl (AddrError ''unexpected '[' in address'' hostport)
            else if IndexByte hostport CHR '']'' \<noteq> None then
              Inl (AddrError ''unexpected ']' in address'' hostport)
            else Inr (take i hostport, drop (i + 1) hostport))"

section \<open>The option structures of package api\<close>

text \<open>
  The declarations of package \<open>api\<close> are outside the sources at hand. Each enumeration is
  a datatype of the constants the command line code names, with Go's zero value (what a
  field holds before any flag sets it) as the first constructor; each structure is a
  record of the fields the command line code reads or writes.
\<close>

datatype LegalComments = LegalCommentsDefault | LegalCommentsNone | LegalCommentsInline
  | LegalCommentsEndOfFile | LegalCommentsLinked | LegalCommentsExternal

datatype Charset = CharsetDefault | CharsetASCII | CharsetUTF8

datatype TreeShaking = TreeShakingDefault | TreeShakingFalse | TreeShakingTrue

datatype SourceMap = SourceMapNone | SourceMapInline | SourceMapLinked | SourceMapExternal
  | SourceMapInlineAndExternal

datatype SourcesContent = SourcesContentInclude | SourcesContentExclude

datatype Loader = LoaderNone | LoaderJS | LoaderJSX | LoaderTS | LoaderTSX | LoaderJSON
  | LoaderText | LoaderBase64 | LoaderDataURL | LoaderFile | LoaderBinary | LoaderCSS
  | LoaderDefault

datatype Target = DefaultTarget | ESNext | ES5 | ES2015 | ES2016 | ES2017 | ES2018 | ES2019
  | ES2020 | ES2021

datatype EngineName = EngineChrome | EngineEdge | EngineFirefox | EngineIOS | EngineNode
  | EngineSafari

datatype Platform = PlatformBrowser | PlatformNode | PlatformNeutral

datatype Format = FormatDefault | FormatIIFE | FormatCommonJS | FormatESModule

datatype JSXMode = JSXModeTransform | JSXModePreserve

datatype StderrColor = ColorIfTerminal | ColorNever | ColorAlways

datatype LogLevel = LogLevelSilent | LogLevelVerbose | LogLevelDebug | LogLevelInfo
  | LogLevelWarning | LogLevelError

datatype WatchMode = WatchMode

record Engine =
  Name :: EngineName
  Version :: string

record EntryPoint =
  InputPath :: string
  OutputPath :: string

record StdinOptions =
  Contents :: string
  ResolveDir :: string
  Sourcefile :: string
  Loader :: Loader

record TransformOptions =
  Color :: StderrColor
  LogLimit :: int
  LogLevel :: LogLevel
  Sourcemap :: SourceMap
  SourceRoot :: string
  SourcesContent :: SourcesContent
  Target :: Target
  Engines :: "Engine list"
  Format :: Format
  GlobalName :: string
  MinifyWhitespace :: bool
  MinifyIdentifiers :: bool
  MinifySyntax :: bool
  Charset :: Charset
  TreeShaking :: TreeShaking
  IgnoreAnnotations :: bool
  LegalComments :: LegalComments
  JSXMode :: JSXMode
  JSXFactory :: string
  JSXFragment :: string
  TsconfigRaw :: string
  Footer :: string
  Banner :: string
  Define :: "string \<rightharpoonup> string"
  Pure :: "string list"
  KeepNames :: bool
  Sourcefile :: string
  Loader :: Loader

record BuildOptions =
  Color :: StderrColor
  LogLimit :: int
  LogLevel :: LogLevel
  Sourcemap :: SourceMap
  SourceRoot :: string
  SourcesContent :: SourcesContent
  Target :: Target
  Engines :: "Engine list"
  MinifyWhitespace :: bool
  MinifyIdentifiers :: bool
  MinifySyntax :: bool
  Charset :: Charset
  TreeShaking :: TreeShaking
  IgnoreAnnotations :: bool
  LegalComments :: LegalComments
  JSXMode :: JSXMode
  JSXFactory :: string
  JSXFragment :: string
  Define :: "string \<rightharpoonup> string"
  Pure :: "string list"
  KeepNames :: bool
  GlobalName :: string
  Bundle :: bool
  PreserveSymlinks :: bool
  Splitting :: bool
  Outfile :: string
  Metafile :: bool
  Outdir :: string
  Outbase :: string
  Platform :: Platform
  Format :: Format
  External :: "string list"
  MainFields :: "string list"
  Conditions :: "string list"
  Loader :: "string \<rightharpoonup> Loader"
  ResolveExtensions :: "string list"
  Tsconfig :: string
  OutExtensions :: "string \<rightharpoonup> string"
  PublicPath :: string
  Inject :: "string list"
  Banner :: "string \<rightharpoonup> string"
  Footer :: "string \<rightharpoonup> string"
  EntryNames :: string
  ChunkNames :: string
  AssetNames :: string
  EntryPoints :: "string list"
  EntryPointsAdvanced :: "EntryPoint list"
  Stdin :: "StdinOptions option"
  Write :: bool
  AllowOverwrite :: bool
  Watch :: "WatchMode option"

text \<open>
  A Go map is a partial function here. Reading a \<open>nil\<close> map is reading the empty map, and
  the maps the code writes to are allocated by the two constructors below (or, for
  \<open>OutExtensions\<close>, right before the write), so \<open>nil\<close> and the empty map are one value.
\<close>

definition newBuildOptions :: BuildOptions where
  "newBuildOptions =
     \<lparr> BuildOptions.Color = ColorIfTerminal, LogLimit = 0, LogLevel = LogLevelSilent,
       Sourcemap = SourceMapNone, SourceRoot = [], SourcesContent = SourcesContentInclude,
       Target = DefaultTarget, Engines = [], MinifyWhitespace = False,
       MinifyIdentifiers = False, MinifySyntax = False, Charset = CharsetDefault,
       TreeShaking = TreeShakingDefault, IgnoreAnnotations = False,
       LegalComments = LegalCommentsDefault, JSXMode = JSXModeTransform, JSXFactory = [],
       JSXFragment = [], Define = Map.empty, Pure = [], KeepNames = False, GlobalName = [],
       Bundle = False, PreserveSymlinks = False, Splitting = False, Outfile = [],
       Metafile = False, Outdir = [], Outbase = [], Platform = PlatformBrowser,
       Format = FormatDefault, External = [], MainFields = [], Conditions = [],
       Loader = Map.empty, ResolveExtensions = [], Tsconfig = [],
       OutExtensions = Map.empty, PublicPath = [], Inject = [], Banner = Map.empty,
       Footer = Map.empty, EntryNames = [], ChunkNames = [], AssetNames = [],
       EntryPoints = [], EntryPointsAdvanced = [], Stdin = None, Write = False,
       AllowOverwrite = False, Watch = None \<rparr>"

definition newTransformOptions :: TransformOptions where
  "newTransformOptions =
     \<lparr> TransformOptions.Color = ColorIfTerminal, TransformOptions.LogLimit = 0,
       TransformOptions.LogLevel = LogLevelSilent,
       TransformOptions.Sourcemap = SourceMapNone, TransformOptions.SourceRoot = [],
       TransformOptions.SourcesContent = SourcesContentInclude,
       TransformOptions.Target = DefaultTarget, TransformOptions.Engines = [],
       TransformOptions.Format = FormatDefault, TransformOptions.GlobalName = [],
       TransformOptions.MinifyWhitespace = False,
       TransformOptions.MinifyIdentifiers = False, TransformOptions.MinifySyntax = False,
       TransformOptions.Charset = CharsetDefault,
       TransformOptions.TreeShaking = TreeShakingDefault,
       TransformOptions.IgnoreAnnotations = False,
       TransformOptions.LegalComments = LegalCommentsDefault,
       TransformOptions.JSXMode = JSXModeTransform, TransformOptions.JSXFactory = [],
       TransformOptions.JSXFragment = [], TransformOptions.TsconfigRaw = [],
       TransformOptions.Footer = [], TransformOptions.Banner = [],
       TransformOptions.Define = Map.empty, TransformOptions.Pure = [],
       TransformOptions.KeepNames = False, TransformOptions.Sourcefile = [],
       TransformOptions.Loader = LoaderNone \<rparr>"

definition emptyStdinOptions :: StdinOptions where
  \<comment> \<open>\<open>&api.StdinOptions{}\<close>\<close>
  "emptyStdinOptions =
     \<lparr> Contents = [], ResolveDir = [], StdinOptions.Sourcefile = [],
       StdinOptions.Loader = LoaderNone \<rparr>"

record ErrorWithNote =
  Text :: string
  Note :: string

definition MakeErrorWithNote :: "string \<Rightarrow> string \<Rightarrow> ErrorWithNote" where
  "MakeErrorWithNote text note = \<lparr> Text = text, Note = note \<rparr>"

section \<open>Formatting\<close>

text \<open>
  The verb \<open>%q\<close> of \<open>fmt.Sprintf\<close> renders a string by \<open>strconv.Quote\<close>, whose
  escaping of bytes beyond ASCII follows the Unicode tables. The functions below take the
  rendering as their first argument \<open>q\<close>, so what is proved of them holds for every
  rendering. \<open>quoteASCII\<close> is the rendering of a string of printable ASCII characters:
  the string between double quotes, with a backslash before each double quote and each
  backslash.
\<close>

definition quoteASCII :: "string \<Rightarrow> string" where
  "quoteASCII s =
     [CHR 0x22]
     @ concat (map (\<lambda>c. if c = CHR 0x22 \<or> c = CHR 0x5C then [CHR 0x5C, c] else [c]) s)
     @ [CHR 0x22]"

section \<open>parseTargets\<close>

definition validTargets :: "(string \<times> Target) list" where
  "validTargets =
     [(''esnext'', ESNext), (''es5'', ES5), (''es6'', ES2015), (''es2015'', ES2015),
      (''es2016'', ES2016), (''es2017'', ES2017), (''es2018'', ES2018),
      (''es2019'', ES2019), (''es2020'', ES2020), (''es2021'', ES2021)]"

definition validEngines :: "(string \<times> EngineName) list" where
  "validEngines =
     [(''chrome'', EngineChrome), (''firefox'', EngineFirefox), (''safari'', EngineSafari),
      (''edge'', EngineEdge), (''node'', EngineNode), (''ios'', EngineIOS)]"

definition matchEngine :: "string \<Rightarrow> (string \<times> EngineName) option" where
  \<comment> \<open>the inner loop of \<open>parseTargets\<close>: the entry of \<open>validEngines\<close> whose name is a
      prefix of the token. Go ranges over the map in no fixed order; no token has two
      of the names as a prefix (\<open>matchEngine_unique\<close> below), so the order is immaterial.\<close>
  "matchEngine value = find (\<lambda>(engine, name). HasPrefix value engine) validEngines"

definition validTargetsNote :: "(string \<Rightarrow> string) \<Rightarrow> string" where
  \<comment> \<open>the note of the error for a token that is neither a baseline nor an engine\<close>
  \<open>validTargetsNote q =
     (let engines = sort (''"esN"'' # map (\<lambda>(key, name). q (key @ ''N'')) validEngines)
      in ''Valid values are '' @ Join (butlast engines) '', '' @ '', or '' @ last engines
         @ '' where N is a version number.'')\<close>

fun parseTargets_loop ::
  "(string \<Rightarrow> string) \<Rightarrow> string list \<Rightarrow> string \<Rightarrow> Target \<Rightarrow> Engine list
     \<Rightarrow> ErrorWithNote + (Target \<times> Engine list)" where
  "parseTargets_loop q [] arg target engines = Inr (target, engines)"
| "parseTargets_loop q (value # rest) arg target engines =
     (case map_of validTargets (ToLower value) of
        Some valid \<Rightarrow> parseTargets_loop q rest arg valid engines
      | None \<Rightarrow>
          (case matchEngine value of
             Some (engine, name) \<Rightarrow>
               (let version = drop (length engine) value in
                if version = [] then
                  Inl (MakeErrorWithNote
                    (''Target '' @ q value @ '' is missing a version number in '' @ q arg) [])
                else parseTargets_loop q rest arg target
                       (engines @ [\<lparr> Name = name, Version = version \<rparr>]))
           | None \<Rightarrow>
               Inl (MakeErrorWithNote
                 (''Invalid target '' @ q value @ '' in '' @ q arg) (validTargetsNote q))))"

definition parseTargets ::
  "(string \<Rightarrow> string) \<Rightarrow> string list \<Rightarrow> string \<Rightarrow> ErrorWithNote + (Target \<times> Engine list)" where
  \<comment> \<open>the named results start as the zero target and the \<open>nil\<close> slice\<close>
  "parseTargets q targets arg = parseTargets_loop q targets arg DefaultTarget []"

section \<open>parseOptionsImpl\<close>

datatype parseOptionsKind = kindInternal | kindExternal

text \<open>
  The function receives two pointers, either of which may be \<open>nil\<close>, and mutates what
  they point to; \<open>hasBareSourceMapFlag\<close> and \<open>metafile\<close> are its local variable and
  its named result. The state of the pass over the arguments holds all four.
\<close>

record parse_state =
  buildOpts :: "BuildOptions option"
  transformOpts :: "TransformOptions option"
  hasBareSourceMapFlag :: bool
  metafile :: "string option"

text \<open>
  One argument either updates the state, or returns an error (no case of the switch
  writes anything before it returns one), or dereferences a \<open>nil\<close> pointer, which
  happens only where both pointers are \<open>nil\<close>.
\<close>

datatype step = Next parse_state | Fail ErrorWithNote | NilDereference

definition set_either ::
  "(BuildOptions \<Rightarrow> BuildOptions) \<Rightarrow> (TransformOptions \<Rightarrow> TransformOptions)
     \<Rightarrow> parse_state \<Rightarrow> step" where
  \<comment> \<open>\<open>if buildOpts != nil { ... } else { ... }\<close>, the second branch writing through
      \<open>transformOpts\<close>\<close>
  "set_either fb ft s =
     (case buildOpts s of
        Some b \<Rightarrow> Next (s\<lparr>buildOpts := Some (fb b)\<rparr>)
      | None \<Rightarrow>
          (case transformOpts s of
             Some t \<Rightarrow> Next (s\<lparr>transformOpts := Some (ft t)\<rparr>)
           | None \<Rightarrow> NilDereference))"

definition set_build :: "(BuildOptions \<Rightarrow> BuildOptions) \<Rightarrow> parse_state \<Rightarrow> step" where
  \<comment> \<open>a write through \<open>buildOpts\<close>\<close>
  "set_build fb s =
     (case buildOpts s of
        Some b \<Rightarrow> Next (s\<lparr>buildOpts := Some (fb b)\<rparr>)
      | None \<Rightarrow> NilDereference)"

definition set_transform :: "(TransformOptions \<Rightarrow> TransformOptions) \<Rightarrow> parse_state \<Rightarrow> step" where
  \<comment> \<open>a write through \<open>transformOpts\<close>\<close>
  "set_transform ft s =
     (case transformOpts s of
        Some t \<Rightarrow> Next (s\<lparr>transformOpts := Some (ft t)\<rparr>)
      | None \<Rightarrow> NilDereference)"

definition invalidValue :: "(string \<Rightarrow> string) \<Rightarrow> string \<Rightarrow> string \<Rightarrow> string" where
  \<comment> \<open>\<open>fmt.Sprintf("Invalid value %q in %q", value, arg)\<close>\<close>
  "invalidValue q v arg = ''Invalid value '' @ q v @ '' in '' @ q arg"

definition missingEquals :: "(string \<Rightarrow> string) \<Rightarrow> string \<Rightarrow> string" where
  \<comment> \<open>\<open>fmt.Sprintf("Missing \"=\" in %q", arg)\<close>\<close>
  \<open>missingEquals q arg = ''Missing "=" in '' @ q arg\<close>

subsection \<open>The tables and the note of the default case\<close>

definition bare :: "string list" where
  "bare =
     [''allow-overwrite'', ''bundle'', ''ignore-annotations'', ''keep-names'', ''metafile'',
      ''minify-identifiers'', ''minify-syntax'', ''minify-whitespace'', ''minify'',
      ''preserve-symlinks'', ''sourcemap'', ''splitting'', ''watch'']"

definition equals :: "string list" where
  "equals =
     [''legal-comments'', ''charset'', ''tree-shaking'', ''sourcemap'', ''source-root'',
      ''sources-content'', ''sourcefile'', ''resolve-extensions'', ''main-fields'',
      ''conditions'', ''public-path'', ''global-name'', ''outfile'', ''outdir'', ''outbase'',
      ''tsconfig'', ''tsconfig-raw'', ''entry-names'', ''chunk-names'', ''asset-names'',
      ''loader'', ''target'', ''platform'', ''format'', ''jsx'', ''jsx-factory'',
      ''jsx-fragment'', ''banner'', ''footer'', ''log-limit'', ''color'', ''log-level'']"

definition colon :: "string list" where
  "colon =
     [''define'', ''pure'', ''loader'', ''out-extension'', ''external'', ''inject'', ''banner'',
      ''footer'']"

definition doubleDashNote :: "(string \<Rightarrow> string) \<Rightarrow> string \<Rightarrow> string" where
  \<comment> \<open>\<open>case strings.HasPrefix(arg, "--")\<close>: two \<open>if\<close> statements in a row, the second
      overwriting the note of the first. The argument starts with two dashes, so
      an index \<open>i\<close> of \<open>=\<close> or \<open>:\<close> is at least 2 and \<open>arg[2:i]\<close> is in range.\<close>
  \<open>doubleDashNote q arg =
     (let note1 =
        (case IndexByte arg CHR ''='' of
           Some i \<Rightarrow>
             if drop 2 (take i arg) \<in> set colon then
               ''Use '' @ q (take i arg @ '':'' @ drop (i + 1) arg) @ '' instead of '' @ q arg
               @ ''. Flags that can be re-specified multiple times use ":" instead of "=".''
             else []
         | None \<Rightarrow> [])
      in (case IndexByte arg CHR '':'' of
            Some i \<Rightarrow>
              if drop 2 (take i arg) \<in> set equals then
                ''Use '' @ q (take i arg @ ''='' @ drop (i + 1) arg) @ '' instead of '' @ q arg
                @ ''. Flags that can only be specified once use "=" instead of ":".''
              else note1
          | None \<Rightarrow> note1))\<close>

definition singleDashFix :: "string \<Rightarrow> bool \<times> string" where
  \<comment> \<open>\<open>case strings.HasPrefix(arg, "-")\<close>: the values of \<open>isValid\<close> and \<open>fix\<close> after the
      chain of \<open>if\<close> statements. The argument starts with a dash, so \<open>arg[1:]\<close> and
      \<open>arg[1:i]\<close> are in range.\<close>
  "singleDashFix arg =
     (let isValid = (drop 1 arg \<in> set bare); fix = ''-'' @ arg in
      case IndexByte arg CHR ''='' of
        Some i \<Rightarrow>
          if drop 1 (take i arg) \<in> set equals then (True, fix)
          else if drop 1 (take i arg) \<in> set colon then
            (True, ''-'' @ take i arg @ '':'' @ drop (i + 1) arg)
          else
            (case IndexByte arg CHR '':'' of
               Some j \<Rightarrow>
                 if drop 1 (take j arg) \<in> set colon then (True, fix)
                 else if drop 1 (take j arg) \<in> set equals then
                   (True, ''-'' @ take j arg @ ''='' @ drop (j + 1) arg)
                 else (isValid, fix)
             | None \<Rightarrow> (isValid, fix))
      | None \<Rightarrow>
          (case IndexByte arg CHR '':'' of
             Some j \<Rightarrow>
               if drop 1 (take j arg) \<in> set colon then (True, fix)
               else if drop 1 (take j arg) \<in> set equals then
                 (True, ''-'' @ take j arg @ ''='' @ drop (j + 1) arg)
               else (isValid, fix)
           | None \<Rightarrow> (isValid, fix)))"

definition singleDashNote :: "(string \<Rightarrow> string) \<Rightarrow> string \<Rightarrow> string" where
  "singleDashNote q arg =
     (case singleDashFix arg of
        (isValid, fix) \<Rightarrow>
          if isValid then
            ''Use '' @ q fix @ '' instead of '' @ q arg
            @ ''. Flags are always specified with two dashes instead of one dash.''
          else [])"

definition flagNote :: "(string \<Rightarrow> string) \<Rightarrow> string \<Rightarrow> string" where
  \<comment> \<open>the \<open>note\<close> of the default case\<close>
  \<open>flagNote q arg =
     (if arg = ''-o'' then
        ''Use "--outfile=" to configure the output file instead of "-o".''
      else if arg = ''-v'' then
        ''Use "--log-level=verbose" to generate verbose logs instead of "-v".''
      else if HasPrefix arg ''--'' then doubleDashNote q arg
      else if HasPrefix arg ''-'' then singleDashNote q arg
      else [])\<close>

definition invalidFlag :: "(string \<Rightarrow> string) \<Rightarrow> string \<Rightarrow> parse_state \<Rightarrow> step" where
  \<comment> \<open>the default case\<close>
  "invalidFlag q arg s =
     (if buildOpts s \<noteq> None
      then Fail (MakeErrorWithNote (''Invalid build flag: '' @ q arg) (flagNote q arg))
      else Fail (MakeErrorWithNote (''Invalid transform flag: '' @ q arg) (flagNote q arg)))"

subsection \<open>One argument: the body of the loop\<close>

text \<open>
  \<open>ParseLoader\<close> of package \<open>cli_helpers\<close> is outside the sources at hand; the functions
  below take it as the argument \<open>pl\<close>, returning a loader or an error.
\<close>

definition parseArg ::
  "(string \<Rightarrow> string) \<Rightarrow> (string \<Rightarrow> ErrorWithNote + Loader) \<Rightarrow> parseOptionsKind
     \<Rightarrow> string \<Rightarrow> parse_state \<Rightarrow> step" where
  \<open>parseArg q pl kind arg s =
    (if arg = ''--bundle'' \<and> buildOpts s \<noteq> None then
       set_build (\<lambda>b. b\<lparr>Bundle := True\<rparr>) s
     else if arg = ''--preserve-symlinks'' \<and> buildOpts s \<noteq> None then
       set_build (\<lambda>b. b\<lparr>PreserveSymlinks := True\<rparr>) s
     else if arg = ''--splitting'' \<and> buildOpts s \<noteq> None then
       set_build (\<lambda>b. b\<lparr>Splitting := True\<rparr>) s
     else if arg = ''--allow-overwrite'' \<and> buildOpts s \<noteq> None then
       set_build (\<lambda>b. b\<lparr>AllowOverwrite := True\<rparr>) s
     else if arg = ''--watch'' \<and> buildOpts s \<noteq> None then
       set_build (\<lambda>b. b\<lparr>Watch := Some WatchMode\<rparr>) s
     else if arg = ''--minify'' then
       set_either
         (\<lambda>b. b\<lparr>MinifySyntax := True, MinifyWhitespace := True, MinifyIdentifiers := True\<rparr>)
         (\<lambda>t. t\<lparr>TransformOptions.MinifySyntax := True,
                TransformOptions.MinifyWhitespace := True,
                TransformOptions.MinifyIdentifiers := True\<rparr>) s
     else if arg = ''--minify-syntax'' then
       set_either (\<lambda>b. b\<lparr>MinifySyntax := True\<rparr>)
         (\<lambda>t. t\<lparr>TransformOptions.MinifySyntax := True\<rparr>) s
     else if arg = ''--minify-whitespace'' then
       set_either (\<lambda>b. b\<lparr>MinifyWhitespace := True\<rparr>)
         (\<lambda>t. t\<lparr>TransformOptions.MinifyWhitespace := True\<rparr>) s
     else if arg = ''--minify-identifiers'' then
       set_either (\<lambda>b. b\<lparr>MinifyIdentifiers := True\<rparr>)
         (\<lambda>t. t\<lparr>TransformOptions.MinifyIdentifiers := True\<rparr>) s
     else if HasPrefix arg ''--legal-comments='' then
       (let v = drop (length ''--legal-comments='') arg in
        case (if v = ''none'' then Some LegalCommentsNone
              else if v = ''inline'' then Some LegalCommentsInline
              else if v = ''eof'' then Some LegalCommentsEndOfFile
              else if v = ''linked'' then Some LegalCommentsLinked
              else if v = ''external'' then Some LegalCommentsExternal
              else None) of
          None \<Rightarrow> Fail (MakeErrorWithNote (invalidValue q v arg)
            ''Valid values are "none", "inline", "eof", "linked", or "external".'')
        | Some legalComments \<Rightarrow>
            set_either (\<lambda>b. b\<lparr>LegalComments := legalComments\<rparr>)
              (\<lambda>t. t\<lparr>TransformOptions.LegalComments := legalComments\<rparr>) s)
     else if HasPrefix arg ''--charset='' then
       \<comment> \<open>the address of the field is taken before the value is looked at\<close>
       (if buildOpts s = None \<and> transformOpts s = None then NilDereference
        else
          (let name = drop (length ''--charset='') arg in
           if name = ''ascii'' then
             set_either (\<lambda>b. b\<lparr>Charset := CharsetASCII\<rparr>)
               (\<lambda>t. t\<lparr>TransformOptions.Charset := CharsetASCII\<rparr>) s
           else if name = ''utf8'' then
             set_either (\<lambda>b. b\<lparr>Charset := CharsetUTF8\<rparr>)
               (\<lambda>t. t\<lparr>TransformOptions.Charset := CharsetUTF8\<rparr>) s
           else Fail (MakeErrorWithNote (invalidValue q name arg)
             ''Valid values are "ascii" or "utf8".'')))
     else if HasPrefix arg ''--tree-shaking='' then
       (if buildOpts s = None \<and> transformOpts s = None then NilDereference
        else
          (let name = drop (length ''--tree-shaking='') arg in
           if name = ''false'' then
             set_either (\<lambda>b. b\<lparr>TreeShaking := TreeShakingFalse\<rparr>)
               (\<lambda>t. t\<lparr>TransformOptions.TreeShaking := TreeShakingFalse\<rparr>) s
           else if name = ''true'' then
             set_either (\<lambda>b. b\<lparr>TreeShaking := TreeShakingTrue\<rparr>)
               (\<lambda>t. t\<lparr>TransformOptions.TreeShaking := TreeShakingTrue\<rparr>) s
           else Fail (MakeErrorWithNote (invalidValue q name arg)
             ''Valid values are "true" or "false".'')))
     else if arg = ''--ignore-annotations'' then
       set_either (\<lambda>b. b\<lparr>IgnoreAnnotations := True\<rparr>)
         (\<lambda>t. t\<lparr>TransformOptions.IgnoreAnnotations := True\<rparr>) s
     else if arg = ''--keep-names'' then
       set_either (\<lambda>b. b\<lparr>KeepNames := True\<rparr>)
         (\<lambda>t. t\<lparr>TransformOptions.KeepNames := True\<rparr>) s
     else if arg = ''--sourcemap'' then
       (case set_either (\<lambda>b. b\<lparr>Sourcemap := SourceMapLinked\<rparr>)
               (\<lambda>t. t\<lparr>TransformOptions.Sourcemap := SourceMapInline\<rparr>) s of
          Next s' \<Rightarrow> Next (s'\<lparr>hasBareSourceMapFlag := True\<rparr>)
        | r \<Rightarrow> r)
     else if HasPrefix arg ''--sourcemap='' then
       (let v = drop (length ''--sourcemap='') arg in
        case (if v = ''inline'' then Some SourceMapInline
              else if v = ''external'' then Some SourceMapExternal
              else if v = ''both'' then Some SourceMapInlineAndExternal
              else None) of
          None \<Rightarrow> Fail (MakeErrorWithNote (invalidValue q v arg)
            ''Valid values are "inline", "external", or "both".'')
        | Some sourcemap \<Rightarrow>
            (case set_either (\<lambda>b. b\<lparr>Sourcemap := sourcemap\<rparr>)
                    (\<lambda>t. t\<lparr>TransformOptions.Sourcemap := sourcemap\<rparr>) s of
               Next s' \<Rightarrow> Next (s'\<lparr>hasBareSourceMapFlag := False\<rparr>)
             | r \<Rightarrow> r))
     else if HasPrefix arg ''--source-root='' then
       (let sourceRoot = drop (length ''--source-root='') arg in
        set_either (\<lambda>b. b\<lparr>SourceRoot := sourceRoot\<rparr>)
          (\<lambda>t. t\<lparr>TransformOptions.SourceRoot := sourceRoot\<rparr>) s)
     else if HasPrefix arg ''--sources-content='' then
       (let v = drop (length ''--sources-content='') arg in
        case (if v = ''false'' then Some SourcesContentExclude
              else if v = ''true'' then Some SourcesContentInclude
              else None) of
          None \<Rightarrow> Fail (MakeErrorWithNote (invalidValue q v arg)
            ''Valid values are "true" or "false".'')
        | Some sourcesContent \<Rightarrow>
            set_either (\<lambda>b. b\<lparr>SourcesContent := sourcesContent\<rparr>)
              (\<lambda>t. t\<lparr>TransformOptions.SourcesContent := sourcesContent\<rparr>) s)
     else if HasPrefix arg ''--sourcefile='' then
       set_either
         (\<lambda>b. b\<lparr>Stdin := Some ((case Stdin b of None \<Rightarrow> emptyStdinOptions | Some i \<Rightarrow> i)
                  \<lparr>StdinOptions.Sourcefile := drop (length ''--sourcefile='') arg\<rparr>)\<rparr>)
         (\<lambda>t. t\<lparr>TransformOptions.Sourcefile := drop (length ''--sourcefile='') arg\<rparr>) s
     else if HasPrefix arg ''--resolve-extensions='' \<and> buildOpts s \<noteq> None then
       set_build (\<lambda>b. b\<lparr>ResolveExtensions :=
         splitWithEmptyCheck (drop (length ''--resolve-extensions='') arg) CHR '',''\<rparr>) s
     else if HasPrefix arg ''--main-fields='' \<and> buildOpts s \<noteq> None then
       set_build (\<lambda>b. b\<lparr>MainFields :=
         splitWithEmptyCheck (drop (length ''--main-fields='') arg) CHR '',''\<rparr>) s
     else if HasPrefix arg ''--conditions='' \<and> buildOpts s \<noteq> None then
       set_build (\<lambda>b. b\<lparr>Conditions :=
         splitWithEmptyCheck (drop (length ''--conditions='') arg) CHR '',''\<rparr>) s
     else if HasPrefix arg ''--public-path='' \<and> buildOpts s \<noteq> None then
       set_build (\<lambda>b. b\<lparr>PublicPath := drop (length ''--public-path='') arg\<rparr>) s
     else if HasPrefix arg ''--global-name='' then
       set_either (\<lambda>b. b\<lparr>GlobalName := drop (length ''--global-name='') arg\<rparr>)
         (\<lambda>t. t\<lparr>TransformOptions.GlobalName := drop (length ''--global-name='') arg\<rparr>) s
     else if arg = ''--metafile'' \<and> buildOpts s \<noteq> None \<and> kind = kindExternal then
       set_build (\<lambda>b. b\<lparr>Metafile := True\<rparr>) s
     else if HasPrefix arg ''--metafile='' \<and> buildOpts s \<noteq> None \<and> kind = kindInternal then
       (let metafilePath = drop (length ''--metafile='') arg in
        case set_build (\<lambda>b. b\<lparr>Metafile := True\<rparr>) s of
          Next s' \<Rightarrow> Next (s'\<lparr>metafile := Some metafilePath\<rparr>)
        | r \<Rightarrow> r)
     else if HasPrefix arg ''--outfile='' \<and> buildOpts s \<noteq> None then
       set_build (\<lambda>b. b\<lparr>Outfile := drop (length ''--outfile='') arg\<rparr>) s
     else if HasPrefix arg ''--outdir='' \<and> buildOpts s \<noteq> None then
       set_build (\<lambda>b. b\<lparr>Outdir := drop (length ''--outdir='') arg\<rparr>) s
     else if HasPrefix arg ''--outbase='' \<and> buildOpts s \<noteq> None then
       set_build (\<lambda>b. b\<lparr>Outbase := drop (length ''--outbase='') arg\<rparr>) s
     else if HasPrefix arg ''--tsconfig='' \<and> buildOpts s \<noteq> None then
       set_build (\<lambda>b. b\<lparr>Tsconfig := drop (length ''--tsconfig='') arg\<rparr>) s
     else if HasPrefix arg ''--tsconfig-raw='' \<and> transformOpts s \<noteq> None then
       set_transform (\<lambda>t. t\<lparr>TsconfigRaw := drop (length ''--tsconfig-raw='') arg\<rparr>) s
     else if HasPrefix arg ''--entry-names='' \<and> buildOpts s \<noteq> None then
       set_build (\<lambda>b. b\<lparr>EntryNames := drop (length ''--entry-names='') arg\<rparr>) s
     else if HasPrefix arg ''--chunk-names='' \<and> buildOpts s \<noteq> None then
       set_build (\<lambda>b. b\<lparr>ChunkNames := drop (length ''--chunk-names='') arg\<rparr>) s
     else if HasPrefix arg ''--asset-names='' \<and> buildOpts s \<noteq> None then
       set_build (\<lambda>b. b\<lparr>AssetNames := drop (length ''--asset-names='') arg\<rparr>) s
     else if HasPrefix arg ''--define:'' then
       (let v = drop (length ''--define:'') arg in
        case IndexByte v CHR ''='' of
          None \<Rightarrow> Fail (MakeErrorWithNote (missingEquals q arg)
            (''You need to use "=" to specify both the original value and the replacement value. ''
             @ ''For example, "--define:DEBUG=true" replaces "DEBUG" with "true".''))
        | Some eq \<Rightarrow>
            set_either (\<lambda>b. b\<lparr>Define := (Define b)(take eq v \<mapsto> drop (eq + 1) v)\<rparr>)
              (\<lambda>t. t\<lparr>TransformOptions.Define :=
                 (TransformOptions.Define t)(take eq v \<mapsto> drop (eq + 1) v)\<rparr>) s)
     else if HasPrefix arg ''--pure:'' then
       (let v = drop (length ''--pure:'') arg in
        set_either (\<lambda>b. b\<lparr>Pure := Pure b @ [v]\<rparr>)
          (\<lambda>t. t\<lparr>TransformOptions.Pure := TransformOptions.Pure t @ [v]\<rparr>) s)
     else if HasPrefix arg ''--loader:'' \<and> buildOpts s \<noteq> None then
       (let v = drop (length ''--loader:'') arg in
        case IndexByte v CHR ''='' of
          None \<Rightarrow> Fail (MakeErrorWithNote (missingEquals q arg)
            (''You need to specify the file extension that the loader applies to. ''
             @ ''For example, "--loader:.js=jsx" applies the "jsx" loader to files with the ".js" extension.''))
        | Some eq \<Rightarrow>
            (case pl (drop (eq + 1) v) of
               Inl err \<Rightarrow> Fail err
             | Inr loader \<Rightarrow>
                 set_build (\<lambda>b. b\<lparr>Loader := (Loader b)(take eq v \<mapsto> loader)\<rparr>) s))
     else if HasPrefix arg ''--loader='' then
       (let v = drop (length ''--loader='') arg in
        case pl v of
          Inl err \<Rightarrow> Fail err
        | Inr loader \<Rightarrow>
            if loader = LoaderFile then
              Fail (MakeErrorWithNote (q arg @ '' is not supported when transforming stdin'')
                (''Using esbuild to transform stdin only generates one output file, so you cannot use the "file" loader ''
                 @ ''since that needs to generate two output files.''))
            else
              set_either
                (\<lambda>b. b\<lparr>Stdin := Some ((case Stdin b of None \<Rightarrow> emptyStdinOptions | Some i \<Rightarrow> i)
                         \<lparr>StdinOptions.Loader := loader\<rparr>)\<rparr>)
                (\<lambda>t. t\<lparr>TransformOptions.Loader := loader\<rparr>) s)
     else if HasPrefix arg ''--target='' then
       (case parseTargets q (splitWithEmptyCheck (drop (length ''--target='') arg) CHR '','') arg of
          Inl err \<Rightarrow> Fail err
        | Inr (target, engines) \<Rightarrow>
            set_either (\<lambda>b. b\<lparr>Target := target, Engines := engines\<rparr>)
              (\<lambda>t. t\<lparr>TransformOptions.Target := target, TransformOptions.Engines := engines\<rparr>) s)
     else if HasPrefix arg ''--out-extension:'' \<and> buildOpts s \<noteq> None then
       (let v = drop (length ''--out-extension:'') arg in
        case IndexByte v CHR ''='' of
          None \<Rightarrow> Fail (MakeErrorWithNote (missingEquals q arg)
            (''You need to use either "--out-extension:.js=..." or "--out-extension:.css=..." ''
             @ ''to specify the file type that the output extension applies to .''))
        | Some eq \<Rightarrow>
            set_build (\<lambda>b. b\<lparr>OutExtensions :=
              (OutExtensions b)(take eq v \<mapsto> drop (eq + 1) v)\<rparr>) s)
     else if HasPrefix arg ''--platform='' \<and> buildOpts s \<noteq> None then
       (let v = drop (length ''--platform='') arg in
        if v = ''browser'' then set_build (\<lambda>b. b\<lparr>Platform := PlatformBrowser\<rparr>) s
        else if v = ''node'' then set_build (\<lambda>b. b\<lparr>Platform := PlatformNode\<rparr>) s
        else if v = ''neutral'' then set_build (\<lambda>b. b\<lparr>Platform := PlatformNeutral\<rparr>) s
        else Fail (MakeErrorWithNote (invalidValue q v arg)
          ''Valid values are "browser", "node", or "neutral".''))
     else if HasPrefix arg ''--format='' then
       (let v = drop (length ''--format='') arg in
        if v = ''iife'' then
          set_either (\<lambda>b. b\<lparr>Format := FormatIIFE\<rparr>)
            (\<lambda>t. t\<lparr>TransformOptions.Format := FormatIIFE\<rparr>) s
        else if v = ''cjs'' then
          set_either (\<lambda>b. b\<lparr>Format := FormatCommonJS\<rparr>)
            (\<lambda>t. t\<lparr>TransformOptions.Format := FormatCommonJS\<rparr>) s
        else if v = ''esm'' then
          set_either (\<lambda>b. b\<lparr>Format := FormatESModule\<rparr>)
            (\<lambda>t. t\<lparr>TransformOptions.Format := FormatESModule\<rparr>) s
        else Fail (MakeErrorWithNote (invalidValue q v arg)
          ''Valid values are "iife", "cjs", or "esm".''))
     else if HasPrefix arg ''--external:'' \<and> buildOpts s \<noteq> None then
       set_build (\<lambda>b. b\<lparr>External := External b @ [drop (length ''--external:'') arg]\<rparr>) s
     else if HasPrefix arg ''--inject:'' \<and> buildOpts s \<noteq> None then
       set_build (\<lambda>b. b\<lparr>Inject := Inject b @ [drop (length ''--inject:'') arg]\<rparr>) s
     else if HasPrefix arg ''--jsx='' then
       (let v = drop (length ''--jsx='') arg in
        case (if v = ''transform'' then Some JSXModeTransform
              else if v = ''preserve'' then Some JSXModePreserve
              else None) of
          None \<Rightarrow> Fail (MakeErrorWithNote (invalidValue q v arg)
            ''Valid values are "transform" or "preserve".'')
        | Some mode \<Rightarrow>
            set_either (\<lambda>b. b\<lparr>JSXMode := mode\<rparr>) (\<lambda>t. t\<lparr>TransformOptions.JSXMode := mode\<rparr>) s)
     else if HasPrefix arg ''--jsx-factory='' then
       (let v = drop (length ''--jsx-factory='') arg in
        set_either (\<lambda>b. b\<lparr>JSXFactory := v\<rparr>) (\<lambda>t. t\<lparr>TransformOptions.JSXFactory := v\<rparr>) s)
     else if HasPrefix arg ''--jsx-fragment='' then
       (let v = drop (length ''--jsx-fragment='') arg in
        set_either (\<lambda>b. b\<lparr>JSXFragment := v\<rparr>) (\<lambda>t. t\<lparr>TransformOptions.JSXFragment := v\<rparr>) s)
     else if HasPrefix arg ''--banner='' \<and> transformOpts s \<noteq> None then
       set_transform (\<lambda>t. t\<lparr>TransformOptions.Banner := drop (length ''--banner='') arg\<rparr>) s
     else if HasPrefix arg ''--footer='' \<and> transformOpts s \<noteq> None then
       set_transform (\<lambda>t. t\<lparr>TransformOptions.Footer := drop (length ''--footer='') arg\<rparr>) s
     else if HasPrefix arg ''--banner:'' \<and> buildOpts s \<noteq> None then
       (let v = drop (length ''--banner:'') arg in
        case IndexByte v CHR ''='' of
          None \<Rightarrow> Fail (MakeErrorWithNote (missingEquals q arg)
            ''You need to use either "--banner:js=..." or "--banner:css=..." to specify the language that the banner applies to.'')
        | Some eq \<Rightarrow>
            set_build (\<lambda>b. b\<lparr>Banner := (Banner b)(take eq v \<mapsto> drop (eq + 1) v)\<rparr>) s)
     else if HasPrefix arg ''--footer:'' \<and> buildOpts s \<noteq> None then
       (let v = drop (length ''--footer:'') arg in
        case IndexByte v CHR ''='' of
          None \<Rightarrow> Fail (MakeErrorWithNote (missingEquals q arg)
            ''You need to use either "--footer:js=..." or "--footer:css=..." to specify the language that the footer applies to.'')
        | Some eq \<Rightarrow>
            set_build (\<lambda>b. b\<lparr>Footer := (Footer b)(take eq v \<mapsto> drop (eq + 1) v)\<rparr>) s)
     else if HasPrefix arg ''--log-limit='' then
       (let v = drop (length ''--log-limit='') arg in
        case Atoi v of
          Inl err \<Rightarrow> Fail (MakeErrorWithNote (invalidValue q v arg)
            ''The log limit must be a non-negative integer.'')
        | Inr limit \<Rightarrow>
            if limit < 0 then
              Fail (MakeErrorWithNote (invalidValue q v arg)
                ''The log limit must be a non-negative integer.'')
            else
              set_either (\<lambda>b. b\<lparr>LogLimit := limit\<rparr>)
                (\<lambda>t. t\<lparr>TransformOptions.LogLimit := limit\<rparr>) s)
     else if HasPrefix arg ''--color='' then
       (let v = drop (length ''--color='') arg in
        case (if v = ''false'' then Some ColorNever
              else if v = ''true'' then Some ColorAlways
              else None) of
          None \<Rightarrow> Fail (MakeErrorWithNote (invalidValue q v arg)
            ''Valid values are "true" or "false".'')
        | Some color \<Rightarrow>
            set_either (\<lambda>b. b\<lparr>Color := color\<rparr>) (\<lambda>t. t\<lparr>TransformOptions.Color := color\<rparr>) s)
     else if HasPrefix arg ''--log-level='' then
       (let v = drop (length ''--log-level='') arg in
        case (if v = ''verbose'' then Some LogLevelVerbose
              else if v = ''debug'' then Some LogLevelDebug
              else if v = ''info'' then Some LogLevelInfo
              else if v = ''warning'' then Some LogLevelWarning
              else if v = ''error'' then Some LogLevelError
              else if v = ''silent'' then Some LogLevelSilent
              else None) of
          None \<Rightarrow> Fail (MakeErrorWithNote (invalidValue q v arg)
            ''Valid values are "verbose", "debug", "info", "warning", "error", or "silent".'')
        | Some logLevel \<Rightarrow>
            set_either (\<lambda>b. b\<lparr>LogLevel := logLevel\<rparr>)
              (\<lambda>t. t\<lparr>TransformOptions.LogLevel := logLevel\<rparr>) s)
     else if HasPrefix arg (CHR 0x27 # ''--'') then
       Fail (MakeErrorWithNote (''Unexpected single quote character before flag: '' @ arg)
         (''This typically happens when attempting to use single quotes to quote arguments with a shell that doesn't recognize single quotes. ''
          @ ''Try using double quote characters to quote arguments instead.''))
     else if \<not> HasPrefix arg ''-'' \<and> buildOpts s \<noteq> None then
       (case IndexByte arg CHR ''='' of
          Some eq \<Rightarrow>
            set_build (\<lambda>b. b\<lparr>EntryPointsAdvanced := EntryPointsAdvanced b
              @ [\<lparr> InputPath = drop (eq + 1) arg, OutputPath = take eq arg \<rparr>]\<rparr>) s
        | None \<Rightarrow> set_build (\<lambda>b. b\<lparr>EntryPoints := EntryPoints b @ [arg]\<rparr>) s)
     else invalidFlag q arg s)\<close>

subsection \<open>The loop over the arguments and what follows it\<close>

datatype 'a outcome = Panics | Returns 'a

fun parseOptionsImpl_loop ::
  "(string \<Rightarrow> string) \<Rightarrow> (string \<Rightarrow> ErrorWithNote + Loader) \<Rightarrow> parseOptionsKind
     \<Rightarrow> string list \<Rightarrow> parse_state \<Rightarrow> (ErrorWithNote option \<times> parse_state) outcome" where
  \<comment> \<open>\<open>for _, arg := range osArgs\<close>; an error leaves the loop with what the pointers
      point to as it was when the failing argument was reached\<close>
  "parseOptionsImpl_loop q pl kind [] s = Returns (None, s)"
| "parseOptionsImpl_loop q pl kind (arg # rest) s =
     (case parseArg q pl kind arg s of
        Next s' \<Rightarrow> parseOptionsImpl_loop q pl kind rest s'
      | Fail err \<Rightarrow> Returns (Some err, s)
      | NilDereference \<Rightarrow> Panics)"

definition inlineWithoutOutput :: "BuildOptions \<Rightarrow> bool \<Rightarrow> BuildOptions" where
  \<comment> \<open>the statement after the loop, for a \<open>buildOpts\<close> that is not \<open>nil\<close>\<close>
  "inlineWithoutOutput b hasBare =
     (if hasBare \<and> Outfile b = [] \<and> Outdir b = [] then b\<lparr>Sourcemap := SourceMapInline\<rparr>
      else b)"

definition parseOptionsImpl ::
  "(string \<Rightarrow> string) \<Rightarrow> (string \<Rightarrow> ErrorWithNote + Loader) \<Rightarrow> string list
     \<Rightarrow> BuildOptions option \<Rightarrow> TransformOptions option \<Rightarrow> parseOptionsKind
     \<Rightarrow> (ErrorWithNote option \<times> string option \<times> BuildOptions option \<times> TransformOptions option)
          outcome" where
  \<comment> \<open>the results \<open>err\<close> and \<open>metafile\<close>, then what the two pointers point to on return\<close>
  "parseOptionsImpl q pl osArgs buildOpts0 transformOpts0 kind =
     (case parseOptionsImpl_loop q pl kind osArgs
             \<lparr> buildOpts = buildOpts0, transformOpts = transformOpts0,
               hasBareSourceMapFlag = False, metafile = None \<rparr> of
        Panics \<Rightarrow> Panics
      | Returns (Some err, s) \<Rightarrow> Returns (Some err, None, buildOpts s, transformOpts s)
      | Returns (None, s) \<Rightarrow>
          Returns (None, metafile s,
            map_option (\<lambda>b. inlineWithoutOutput b (hasBareSourceMapFlag s)) (buildOpts s),
            transformOpts s))"

section \<open>parseOptionsForRun\<close>

fun buildMode :: "string list \<Rightarrow> bool" where
  \<comment> \<open>the loop at the head of \<open>parseOptionsForRun\<close>: whether some argument makes it take
      the build branch, found by the first such argument\<close>
  "buildMode [] = False"
| "buildMode (arg # rest) =
     (if \<not> HasPrefix arg ''-'' \<or> arg = ''--bundle'' then True else buildMode rest)"

definition sourceMapModeName :: "SourceMap \<Rightarrow> string" where
  \<comment> \<open>the \<open>switch\<close> that sets \<open>sourceMapMode\<close>, which starts as the empty string\<close>
  "sourceMapModeName m =
     (case m of
        SourceMapExternal \<Rightarrow> ''external''
      | SourceMapInlineAndExternal \<Rightarrow> ''both''
      | SourceMapLinked \<Rightarrow> ''linked''
      | _ \<Rightarrow> [])"

definition stdinSourceMapError :: "(string \<Rightarrow> string) \<Rightarrow> string \<Rightarrow> ErrorWithNote" where
  \<open>stdinSourceMapError q sourceMapMode =
     MakeErrorWithNote
       (''Use "--sourcemap" instead of "--sourcemap='' @ sourceMapMode
        @ ''" when transforming stdin'')
       (''Using esbuild to transform stdin only generates one output file, so you cannot use the ''
        @ q sourceMapMode @ '' source map mode ''
        @ ''since that needs to generate two output files.'')\<close>

definition parseOptionsForRun ::
  "(string \<Rightarrow> string) \<Rightarrow> (string \<Rightarrow> ErrorWithNote + Loader) \<Rightarrow> string list
     \<Rightarrow> (BuildOptions option \<times> string option \<times> TransformOptions option \<times> ErrorWithNote option)
          outcome" where
  "parseOptionsForRun q pl osArgs =
     (if buildMode osArgs then
        (let options = newBuildOptions\<lparr>LogLimit := 6, LogLevel := LogLevelInfo, Write := True\<rparr>
         in case parseOptionsImpl q pl osArgs (Some options) None kindInternal of
              Panics \<Rightarrow> Panics
            | Returns (Some err, mf, b, t) \<Rightarrow> Returns (None, None, None, Some err)
            | Returns (None, mf, b, t) \<Rightarrow> Returns (b, mf, None, None))
      else
        (let options = newTransformOptions\<lparr>TransformOptions.LogLimit := 6,
                         TransformOptions.LogLevel := LogLevelInfo\<rparr>
         in case parseOptionsImpl q pl osArgs None (Some options) kindInternal of
              Panics \<Rightarrow> Panics
            | Returns (Some err, mf, b, t) \<Rightarrow> Returns (None, None, None, Some err)
            | Returns (None, mf, b, None) \<Rightarrow> Panics
            | Returns (None, mf, b, Some options') \<Rightarrow>
                if TransformOptions.Sourcemap options' \<noteq> SourceMapNone
                   \<and> TransformOptions.Sourcemap options' \<noteq> SourceMapInline
                then Returns (None, None, None,
                       Some (stdinSourceMapError q
                         (sourceMapModeName (TransformOptions.Sourcemap options'))))
                else Returns (None, None, Some options', None)))"

section \<open>parseServeOptionsImpl\<close>

record ServeOptions =
  Port :: int
  Host :: string
  Servedir :: string

datatype serve_error =
    HostPortError addr_error
  | NumError string string conv_error
  | Errorf string

fun filterServeArgs ::
  "string list \<Rightarrow> string \<times> string \<times> string list \<Rightarrow> string \<times> string \<times> string list" where
  \<comment> \<open>the loop over the arguments, on \<open>portText\<close>, \<open>servedir\<close> and \<open>filteredArgs\<close>\<close>
  "filterServeArgs [] st = st"
| "filterServeArgs (arg # rest) (portText, servedir, filteredArgs) =
     (if arg = ''--serve'' then filterServeArgs rest (portText, servedir, filteredArgs)
      else if HasPrefix arg ''--serve='' then
        filterServeArgs rest (drop (length ''--serve='') arg, servedir, filteredArgs)
      else if HasPrefix arg ''--servedir='' then
        filterServeArgs rest (portText, drop (length ''--servedir='') arg, filteredArgs)
      else filterServeArgs rest (portText, servedir, filteredArgs @ [arg]))"

definition parseServeOptionsImpl ::
  "string list \<Rightarrow> serve_error + (ServeOptions \<times> string list)" where
  \<comment> \<open>\<open>strings.ContainsRune(portText, ':')\<close> is the membership of the byte; \<open>uint16(port)\<close>
      is \<open>port mod 2 ^ 16\<close>\<close>
  "parseServeOptionsImpl osArgs =
     (case filterServeArgs osArgs (''0'', [], []) of
        (portText0, servedir, filteredArgs) \<Rightarrow>
          (case (if CHR '':'' \<in> set portText0 then
                   (case SplitHostPort portText0 of
                      Inl err \<Rightarrow> Inl (HostPortError err)
                    | Inr hp \<Rightarrow> Inr hp)
                 else Inr ([], portText0)) of
             Inl err \<Rightarrow> Inl err
           | Inr (host, portText) \<Rightarrow>
               (case ParseInt portText 32 of
                  Inl err \<Rightarrow> Inl (NumError ''ParseInt'' portText err)
                | Inr port \<Rightarrow>
                    if port < 0 \<or> port > 0xFFFF then
                      Inl (Errorf (''Invalid port number: '' @ portText))
                    else
                      Inr (\<lparr> Port = port mod 2 ^ 16, Host = host, Servedir = servedir \<rparr>,
                           filteredArgs))))"

section \<open>Auxiliary notions for stating and proving properties\<close>

definition stepP ::
  "(parse_state \<Rightarrow> bool) \<Rightarrow> (ErrorWithNote \<Rightarrow> bool) \<Rightarrow> bool \<Rightarrow> step \<Rightarrow> bool" where
  \<comment> \<open>a condition on each of the three ways one argument can end\<close>
  "stepP P F N r = (case r of Next s' \<Rightarrow> P s' | Fail e \<Rightarrow> F e | NilDereference \<Rightarrow> N)"

definition buildOf ::
  "(BuildOptions option \<times> string option \<times> TransformOptions option \<times> ErrorWithNote option)
     outcome \<Rightarrow> BuildOptions option" where
  "buildOf r = (case r of Returns (b, mf, t, e) \<Rightarrow> b | Panics \<Rightarrow> None)"

definition transformOf ::
  "(BuildOptions option \<times> string option \<times> TransformOptions option \<times> ErrorWithNote option)
     outcome \<Rightarrow> TransformOptions option" where
  "transformOf r = (case r of Returns (b, mf, t, e) \<Rightarrow> t | Panics \<Rightarrow> None)"

definition errorOf ::
  "(BuildOptions option \<times> string option \<times> TransformOptions option \<times> ErrorWithNote option)
     outcome \<Rightarrow> ErrorWithNote option" where
  "errorOf r = (case r of Returns (b, mf, t, e) \<Rightarrow> e | Panics \<Rightarrow> None)"

definition sampleLoader :: "string \<Rightarrow> ErrorWithNote + Loader" where
  \<comment> \<open>a loader parser for the examples: four loader names, an error for any other text\<close>
  "sampleLoader text =
     (if text = ''js'' then Inr LoaderJS
      else if text = ''json'' then Inr LoaderJSON
      else if text = ''text'' then Inr LoaderText
      else if text = ''file'' then Inr LoaderFile
      else Inl (MakeErrorWithNote (''Invalid loader value: '' @ quoteASCII text) []))"

subsection \<open>The serve flags, in the words of the specification\<close>

definition lastValue :: "string \<Rightarrow> string \<Rightarrow> string list \<Rightarrow> string" where
  \<comment> \<open>the value of the last argument that starts with \<open>p\<close>, or \<open>d\<close> when there is none\<close>
  "lastValue p d osArgs =
     (case filter (\<lambda>a. HasPrefix a p) osArgs of [] \<Rightarrow> d | xs \<Rightarrow> drop (length p) (last xs))"

definition isServeFlag :: "string \<Rightarrow> bool" where
  "isServeFlag a = (a = ''--serve'' \<or> HasPrefix a ''--serve='' \<or> HasPrefix a ''--servedir='')"

definition serveResolver :: "string list \<Rightarrow> (ServeOptions \<times> string list) option" where
  \<comment> \<open>the serve spec is the last \<open>--serve=\<close> value or \<open>"0"\<close>; with a colon it is split into
      host and port, otherwise it is the port; the port is a decimal integer from 0 to
      65535; every argument that is not a serve flag is kept, in order; \<open>None\<close> is the
      fatal error\<close>
  "serveResolver osArgs =
     (let spec = lastValue ''--serve='' ''0'' osArgs in
      case (if CHR '':'' \<in> set spec
            then (case SplitHostPort spec of Inl err \<Rightarrow> None | Inr hp \<Rightarrow> Some hp)
            else Some ([], spec)) of
        None \<Rightarrow> None
      | Some (host, portText) \<Rightarrow>
          (case parseDecimal portText of
             None \<Rightarrow> None
           | Some port \<Rightarrow>
               if 0 \<le> port \<and> port \<le> 65535
               then Some (\<lparr> Port = port, Host = host,
                             Servedir = lastValue ''--servedir='' [] osArgs \<rparr>,
                          filter (\<lambda>a. \<not> isServeFlag a) osArgs)
               else None))"

subsection \<open>Target tokens, in the words of the specification\<close>

text \<open>
  A token is a baseline when its lower-case form is in the table of language versions; it
  names an engine when one of the six engine names is a prefix of it, the rest being the
  version; it is valid when it is a baseline or names an engine with a version that is
  not empty. The targets of a list of valid tokens are the last baseline (the zero
  target when there is none) and the engines of the other tokens, in order.
\<close>

definition tokenBaseline :: "string \<Rightarrow> Target option" where
  "tokenBaseline tok = map_of validTargets (ToLower tok)"

definition tokenEngine :: "string \<Rightarrow> Engine option" where
  "tokenEngine tok =
     (case matchEngine tok of
        Some (engine, name) \<Rightarrow> Some \<lparr> Name = name, Version = drop (length engine) tok \<rparr>
      | None \<Rightarrow> None)"

definition tokenValid :: "string \<Rightarrow> bool" where
  "tokenValid tok =
     (tokenBaseline tok \<noteq> None
      \<or> (case tokenEngine tok of Some e \<Rightarrow> Version e \<noteq> [] | None \<Rightarrow> False))"

definition targetsSpec :: "string list \<Rightarrow> (Target \<times> Engine list) option" where
  "targetsSpec toks =
     (if list_all tokenValid toks
      then Some (last (DefaultTarget # List.map_filter tokenBaseline toks),
                 List.map_filter tokenEngine (filter (\<lambda>tok. tokenBaseline tok = None) toks))
      else None)"

subsection \<open>The stdin loader\<close>

definition fileLoaderNote :: string where
  \<open>fileLoaderNote = ''Using esbuild to transform stdin only generates one output file, so you cannot use the "file" loader since that needs to generate two output files.''\<close>

definition stdinLoaderNotFile :: "parse_state \<Rightarrow> bool" where
  "stdinLoaderNotFile s =
     (case buildOpts s of
        None \<Rightarrow> True
      | Some b \<Rightarrow> (case Stdin b of None \<Rightarrow> True | Some i \<Rightarrow> StdinOptions.Loader i \<noteq> LoaderFile))"


subsection \<open>Flags with one dash, in the words of the specification\<close>

text \<open>
  The name of a flag is what stands between its dashes and its separator. An argument
  with one dash is recognized when what follows the dash is a bare flag, or when its name
  up to the first \<open>=\<close>, or up to the first \<open>:\<close>, is a flag of either syntax. A flag with
  two dashes is well formed when it is a bare flag, or an equals-syntax name followed by
  \<open>=\<close>, or a colon-syntax name followed by \<open>:\<close>.
\<close>

definition flagName :: "string \<Rightarrow> char \<Rightarrow> string option" where
  "flagName arg sep =
     (case IndexByte arg sep of Some i \<Rightarrow> Some (drop 1 (take i arg)) | None \<Rightarrow> None)"

definition recognizedSingleDash :: "string \<Rightarrow> bool" where
  "recognizedSingleDash arg =
     (drop 1 arg \<in> set bare
      \<or> (case flagName arg CHR ''='' of
            Some name \<Rightarrow> name \<in> set equals \<or> name \<in> set colon | None \<Rightarrow> False)
      \<or> (case flagName arg CHR '':'' of
            Some name \<Rightarrow> name \<in> set colon \<or> name \<in> set equals | None \<Rightarrow> False))"

definition wellFormedFlag :: "string \<Rightarrow> bool" where
  "wellFormedFlag f =
     (HasPrefix f ''--''
      \<and> (drop 2 f \<in> set bare
         \<or> (case IndexByte f CHR ''='' of
               Some i \<Rightarrow> drop 2 (take i f) \<in> set equals | None \<Rightarrow> False)
         \<or> (case IndexByte f CHR '':'' of
               Some j \<Rightarrow> drop 2 (take j f) \<in> set colon | None \<Rightarrow> False)))"

definition twoDashesNote :: "(string \<Rightarrow> string) \<Rightarrow> string \<Rightarrow> string \<Rightarrow> string" where
  "twoDashesNote q fix arg =
     ''Use '' @ q fix @ '' instead of '' @ q arg
     @ ''. Flags are always specified with two dashes instead of one dash.''"


subsection \<open>Valid and invalid flags\<close>

text \<open>
  How one argument ends, apart from the state it leaves; the state \<open>parseOptionsForRun\<close>
  starts the pass from in each mode; and the verdict on a flag in a mode, which is how
  the flag ends in that state. The verdict is the same in every state with the same
  pointers \<open>nil\<close> (\<open>verdict_pointers_only\<close>), so it is a property of the flag and the mode.
\<close>

datatype verdict = Accepted | Rejected ErrorWithNote | Crashes

definition verdictOf :: "step \<Rightarrow> verdict" where
  "verdictOf r = (case r of Next s' \<Rightarrow> Accepted | Fail e \<Rightarrow> Rejected e | NilDereference \<Rightarrow> Crashes)"

definition startState :: "bool \<Rightarrow> parse_state" where
  "startState build =
     (if build then
        \<lparr> buildOpts = Some (newBuildOptions\<lparr>LogLimit := 6, LogLevel := LogLevelInfo, Write := True\<rparr>),
          transformOpts = None, hasBareSourceMapFlag = False, metafile = None \<rparr>
      else
        \<lparr> buildOpts = None,
          transformOpts = Some (newTransformOptions\<lparr>TransformOptions.LogLimit := 6,
                                  TransformOptions.LogLevel := LogLevelInfo\<rparr>),
          hasBareSourceMapFlag = False, metafile = None \<rparr>)"

definition flagVerdict ::
  "(string \<Rightarrow> string) \<Rightarrow> (string \<Rightarrow> ErrorWithNote + Loader) \<Rightarrow> bool \<Rightarrow> string \<Rightarrow> verdict" where
  "flagVerdict q pl build arg = verdictOf (parseArg q pl kindInternal arg (startState build))"


section \<open>Rules for the cases of one argument\<close>

lemma stepP_ifI:
  "(c \<Longrightarrow> stepP P F N a) \<Longrightarrow> stepP P F N b \<Longrightarrow> stepP P F N (if c then a else b)"
  by simp

lemma stepP_optionI:
  "(x = None \<Longrightarrow> stepP P F N a) \<Longrightarrow> (\<And>v. x = Some v \<Longrightarrow> stepP P F N (b v))
     \<Longrightarrow> stepP P F N (case x of None \<Rightarrow> a | Some v \<Rightarrow> b v)"
  by (cases x) simp_all

lemma stepP_sumI:
  "(\<And>e. x = Inl e \<Longrightarrow> stepP P F N (a e)) \<Longrightarrow> (\<And>v. x = Inr v \<Longrightarrow> stepP P F N (b v))
     \<Longrightarrow> stepP P F N (case x of Inl e \<Rightarrow> a e | Inr v \<Rightarrow> b v)"
  by (cases x) simp_all

lemma stepP_prodI:
  "(\<And>u v. x = (u, v) \<Longrightarrow> stepP P F N (a u v))
     \<Longrightarrow> stepP P F N (case x of (u, v) \<Rightarrow> a u v)"
  by (cases x) simp_all

lemma stepP_stepI:
  "stepP (\<lambda>s'. P (g s')) F N r
     \<Longrightarrow> stepP P F N
           (case r of Next s' \<Rightarrow> Next (g s') | Fail e \<Rightarrow> Fail e
            | NilDereference \<Rightarrow> NilDereference)"
  by (cases r) (simp_all add: stepP_def)

lemmas stepP_intros = stepP_ifI stepP_optionI stepP_sumI stepP_prodI stepP_stepI

lemmas set_defs = stepP_def set_either_def set_build_def set_transform_def

section \<open>The pointers stay as they are and nothing dereferences \<open>nil\<close>\<close>

lemma parseArg_keeps_pointers:
  "buildOpts s \<noteq> None \<or> transformOpts s \<noteq> None \<Longrightarrow>
   stepP (\<lambda>s'. (buildOpts s' = None) = (buildOpts s = None)
              \<and> (transformOpts s' = None) = (transformOpts s = None))
     (\<lambda>_. True) False (parseArg q pl kind arg s)"
  unfolding parseArg_def Let_def invalidFlag_def
  apply (intro stepP_intros)
  apply (auto simp add: set_defs split: option.splits)
  done

lemma loop_returns:
  "buildOpts s \<noteq> None \<or> transformOpts s \<noteq> None \<Longrightarrow>
   \<exists>e s'. parseOptionsImpl_loop q pl kind osArgs s = Returns (e, s')
     \<and> (buildOpts s' = None) = (buildOpts s = None)
     \<and> (transformOpts s' = None) = (transformOpts s = None)"
proof (induction osArgs arbitrary: s)
  case Nil
  then show ?case by simp
next
  case (Cons arg rest)
  from parseArg_keeps_pointers [OF Cons.prems, of q pl kind arg]
  show ?case
  proof (cases "parseArg q pl kind arg s")
    case (Next s1)
    with \<open>stepP _ _ _ (parseArg q pl kind arg s)\<close>
    have same: "(buildOpts s1 = None) = (buildOpts s = None)"
      "(transformOpts s1 = None) = (transformOpts s = None)"
      by (simp_all add: stepP_def)
    with Cons.prems have "buildOpts s1 \<noteq> None \<or> transformOpts s1 \<noteq> None" by simp
    from Cons.IH [OF this] same Next show ?thesis by auto
  next
    case (Fail err)
    then show ?thesis by simp
  next
    case NilDereference
    with \<open>stepP _ _ _ (parseArg q pl kind arg s)\<close> show ?thesis by (simp add: stepP_def)
  qed
qed

section \<open>Build or transform: one result\<close>

lemma buildMode_iff:
  "buildMode osArgs = (\<exists>arg \<in> set osArgs. \<not> HasPrefix arg ''-'' \<or> arg = ''--bundle'')"
  by (induction osArgs) auto

text \<open>
  C1. The scan at the head of \<open>parseOptionsForRun\<close> chooses the build branch exactly when
  some argument does not start with a dash or is \<open>--bundle\<close>. Whatever the arguments (and
  whatever the quoting and the loader parser), \<open>parseOptionsForRun\<close> returns, and of the
  build options, the transform options and the error exactly one is not \<open>nil\<close>: the error
  alone, or else the options of the branch the scan chose.
\<close>

theorem parseOptionsForRun_one_result:
  "buildMode osArgs = (\<exists>arg \<in> set osArgs. \<not> HasPrefix arg ''-'' \<or> arg = ''--bundle'')
   \<and> (\<exists>b mf t e. parseOptionsForRun q pl osArgs = Returns (b, mf, t, e)
        \<and> (if e \<noteq> None then b = None \<and> mf = None \<and> t = None
            else if buildMode osArgs then b \<noteq> None \<and> t = None
            else b = None \<and> mf = None \<and> t \<noteq> None))"
proof -
  let ?b0 = "newBuildOptions\<lparr>LogLimit := 6, LogLevel := LogLevelInfo, Write := True\<rparr>"
  let ?t0 = "newTransformOptions\<lparr>TransformOptions.LogLimit := 6,
               TransformOptions.LogLevel := LogLevelInfo\<rparr>"
  let ?sb = "\<lparr> buildOpts = Some ?b0, transformOpts = None,
               hasBareSourceMapFlag = False, metafile = None \<rparr>"
  let ?st = "\<lparr> buildOpts = None, transformOpts = Some ?t0,
               hasBareSourceMapFlag = False, metafile = None \<rparr>"
  have second: "\<exists>b mf t e. parseOptionsForRun q pl osArgs = Returns (b, mf, t, e)
        \<and> (if e \<noteq> None then b = None \<and> mf = None \<and> t = None
            else if buildMode osArgs then b \<noteq> None \<and> t = None
            else b = None \<and> mf = None \<and> t \<noteq> None)"
  proof (cases "buildMode osArgs")
    case True
    obtain e s' where "parseOptionsImpl_loop q pl kindInternal osArgs ?sb = Returns (e, s')"
      "buildOpts s' \<noteq> None"
      using loop_returns [of ?sb q pl kindInternal osArgs] by auto
    with True show ?thesis
      by (cases e) (force simp: parseOptionsForRun_def parseOptionsImpl_def)+
  next
    case False
    obtain e s' where "parseOptionsImpl_loop q pl kindInternal osArgs ?st = Returns (e, s')"
      "buildOpts s' = None" "transformOpts s' \<noteq> None"
      using loop_returns [of ?st q pl kindInternal osArgs] by auto
    with False show ?thesis
      by (cases e) (force simp: parseOptionsForRun_def parseOptionsImpl_def)+
  qed
  with buildMode_iff show ?thesis by blast
qed

lemma run_entry_minify_error:
  "errorOf (parseOptionsForRun quoteASCII sampleLoader [''entry.js'', ''--minify'']) = None"
  by code_simp

theorem parseOptionsForRun_one_result_witness:
  "(\<exists>arg \<in> set [''entry.js'', ''--minify'']. \<not> HasPrefix arg ''-'' \<or> arg = ''--bundle'')
   \<and> (\<exists>b mf. parseOptionsForRun quoteASCII sampleLoader [''entry.js'', ''--minify'']
        = Returns (Some b, mf, None, None))"
proof -
  have m: "buildMode [''entry.js'', ''--minify'']"
    by (simp add: HasPrefix_def)
  from parseOptionsForRun_one_result [of "[''entry.js'', ''--minify'']" quoteASCII sampleLoader]
    m run_entry_minify_error
  show ?thesis
    by (auto simp: errorOf_def HasPrefix_def)
qed

section \<open>Facts of the loop\<close>

lemma loop_fails_at:
  assumes "a \<in> set osArgs" and "\<And>s. \<exists>e. parseArg q pl kind a s = Fail e"
    and "buildOpts s \<noteq> None \<or> transformOpts s \<noteq> None"
  shows "\<exists>e s'. parseOptionsImpl_loop q pl kind osArgs s = Returns (Some e, s')"
  using assms(1,3)
proof (induction osArgs arbitrary: s)
  case Nil
  then show ?case by simp
next
  case (Cons x xs)
  from parseArg_keeps_pointers [OF Cons.prems(2), of q pl kind x]
  show ?case
  proof (cases "parseArg q pl kind x s")
    case (Next s1)
    with \<open>stepP _ _ _ (parseArg q pl kind x s)\<close> Cons.prems(2)
    have ok: "buildOpts s1 \<noteq> None \<or> transformOpts s1 \<noteq> None"
      by (auto simp: stepP_def)
    from Next assms(2) [of s] have "x \<noteq> a" by auto
    with Cons.prems(1) have "a \<in> set xs" by simp
    from Cons.IH [OF this ok] Next show ?thesis by simp
  next
    case (Fail err)
    then show ?thesis by simp
  next
    case NilDereference
    with \<open>stepP _ _ _ (parseArg q pl kind x s)\<close> show ?thesis by (simp add: stepP_def)
  qed
qed

lemma loop_invariant:
  assumes step: "\<And>arg s. I s \<Longrightarrow> stepP I (\<lambda>_. True) True (parseArg q pl kind arg s)"
    and "I s" and "parseOptionsImpl_loop q pl kind osArgs s = Returns (e, s')"
  shows "I s'"
  using assms(2,3)
proof (induction osArgs arbitrary: s)
  case Nil
  then show ?case by simp
next
  case (Cons x xs)
  from step [OF Cons.prems(1), of x] Cons.prems Cons.IH show ?case
    by (cases "parseArg q pl kind x s") (auto simp: stepP_def)
qed


section \<open>The serve options\<close>

lemma lastValue_Cons:
  "lastValue p d (a # as) = lastValue p (if HasPrefix a p then drop (length p) a else d) as"
  by (simp add: lastValue_def split: list.splits)

lemma serve_prefixes_disjoint:
  "HasPrefix a ''--serve='' \<Longrightarrow> \<not> HasPrefix a ''--servedir='' \<and> a \<noteq> ''--serve''"
  by (auto simp: HasPrefix_def elim!: prefixE)

lemma filterServeArgs_spec:
  "filterServeArgs osArgs (p, d, f) =
     (lastValue ''--serve='' p osArgs, lastValue ''--servedir='' d osArgs,
      f @ filter (\<lambda>a. \<not> isServeFlag a) osArgs)"
proof (induction osArgs arbitrary: p d f)
  case Nil
  show ?case by (simp add: lastValue_def)
next
  case (Cons a as)
  show ?case
    using serve_prefixes_disjoint [of a]
    by (auto simp: Cons.IH lastValue_Cons isServeFlag_def HasPrefix_def)
qed

lemma ParseInt32:
  "ParseInt t 32 =
     (case parseDecimal t of
        None \<Rightarrow> Inl ErrSyntax
      | Some n \<Rightarrow> if - 2147483648 \<le> n \<and> n < 2147483648 then Inr n else Inl ErrRange)"
  by (simp add: ParseInt_def split: option.split)

lemma port_resolves:
  "(case (case ParseInt portText 32 of
            Inl err \<Rightarrow> Inl (NumError ''ParseInt'' portText err)
          | Inr port \<Rightarrow>
              if port < 0 \<or> port > 0xFFFF then
                Inl (Errorf (''Invalid port number: '' @ portText))
              else Inr (\<lparr> Port = port mod 2 ^ 16, Host = host, Servedir = servedir \<rparr>, rest))
    of Inl err \<Rightarrow> None | Inr r \<Rightarrow> Some r)
   = (case parseDecimal portText of
        None \<Rightarrow> None
      | Some port \<Rightarrow>
          if 0 \<le> port \<and> port \<le> 65535
          then Some (\<lparr> Port = port, Host = host, Servedir = servedir \<rparr>, rest)
          else None)"
proof (cases "parseDecimal portText")
  case None
  then show ?thesis by (simp add: ParseInt32)
next
  case (Some port)
  then show ?thesis by (simp add: ParseInt32)
qed

lemmas serve_eval = parseServeOptionsImpl_def SplitHostPort_def ParseInt_def parseDecimal_def
  isDigit_def digitValue_def HasPrefix_def

text \<open>
  C7. \<open>parseServeOptionsImpl\<close> succeeds exactly when the resolver of the specification
  does, and with the same result: a serve spec with a colon is split into host and port,
  one without is the port (\<open>"0"\<close> when no \<open>--serve=\<close> is given); the port is a decimal
  integer that lies in 0..65535 (anything else is an error, so the conversion to 16 bits
  loses nothing); every argument that is not a serve flag is in the filtered list, in
  order. \<open>--serve=127.0.0.1:9000\<close> gives host \<open>127.0.0.1\<close> and port 9000, and
  \<open>--serve=70000\<close> is the error \<open>Invalid port number: 70000\<close>.
\<close>

theorem parseServeOptionsImpl_resolves:
  "(case parseServeOptionsImpl osArgs of Inl err \<Rightarrow> None | Inr r \<Rightarrow> Some r)
     = serveResolver osArgs
   \<and> parseServeOptionsImpl [''--serve=127.0.0.1:9000'']
       = Inr (\<lparr> Port = 9000, Host = ''127.0.0.1'', Servedir = [] \<rparr>, [])
   \<and> parseServeOptionsImpl [''--serve=70000''] = Inl (Errorf ''Invalid port number: 70000'')"
proof -
  define spec where "spec = lastValue ''--serve='' ''0'' osArgs"
  have "(case parseServeOptionsImpl osArgs of Inl err \<Rightarrow> None | Inr r \<Rightarrow> Some r)
          = serveResolver osArgs"
  proof (cases "CHR '':'' \<in> set spec")
    case True
    show ?thesis
    proof (cases "SplitHostPort spec")
      case (Inl err)
      with True show ?thesis
        unfolding parseServeOptionsImpl_def serveResolver_def filterServeArgs_spec Let_def
          spec_def [symmetric]
        by (simp only: prod.case if_True sum.case option.case)
    next
      case (Inr hp)
      obtain host portText where hp: "hp = (host, portText)" by (cases hp)
      from True Inr hp show ?thesis
        unfolding parseServeOptionsImpl_def serveResolver_def filterServeArgs_spec Let_def
          spec_def [symmetric]
        by (simp only: prod.case if_True sum.case option.case append_Nil port_resolves)
    qed
  next
    case False
    then show ?thesis
      unfolding parseServeOptionsImpl_def serveResolver_def filterServeArgs_spec Let_def
        spec_def [symmetric]
      by (simp only: prod.case if_False sum.case option.case append_Nil port_resolves)
  qed
  moreover have "parseServeOptionsImpl [''--serve=127.0.0.1:9000'']
       = Inr (\<lparr> Port = 9000, Host = ''127.0.0.1'', Servedir = [] \<rparr>, [])"
    by (simp add: serve_eval)
  moreover have "parseServeOptionsImpl [''--serve=70000'']
       = Inl (Errorf ''Invalid port number: 70000'')"
    by (simp add: serve_eval)
  ultimately show ?thesis by blast
qed

theorem parseServeOptionsImpl_resolves_witness:
  "serveResolver [''--serve=localhost:8080'', ''app.js'', ''--servedir=www'', ''--serve'']
     = Some (\<lparr> Port = 8080, Host = ''localhost'', Servedir = ''www'' \<rparr>, [''app.js''])"
  using parseServeOptionsImpl_resolves
    [of "[''--serve=localhost:8080'', ''app.js'', ''--servedir=www'', ''--serve'']"]
  by (simp add: serve_eval)

section \<open>The targets\<close>

text \<open>Go ranges over the map of engines in no fixed order; the match does not depend on it.\<close>

lemma matchEngine_any_order:
  assumes m: "(engine, name) \<in> set validEngines" and p: "HasPrefix v engine"
  shows "matchEngine v = Some (engine, name)"
proof -
  from p obtain r where v: "v = engine @ r"
    by (auto simp: HasPrefix_def prefix_def)
  from m have "(engine, name) = (''chrome'', EngineChrome) \<or> (engine, name) = (''firefox'', EngineFirefox)
      \<or> (engine, name) = (''safari'', EngineSafari) \<or> (engine, name) = (''edge'', EngineEdge)
      \<or> (engine, name) = (''node'', EngineNode) \<or> (engine, name) = (''ios'', EngineIOS)"
    by (simp add: validEngines_def)
  then show ?thesis
    unfolding v
    by (elim disjE) (simp_all add: matchEngine_def validEngines_def HasPrefix_def)
qed

lemma parseTargets_loop_spec:
  "(case parseTargets_loop q toks arg target engines of Inl err \<Rightarrow> None | Inr r \<Rightarrow> Some r) =
     (if list_all tokenValid toks
      then Some (last (target # List.map_filter tokenBaseline toks),
                 engines @ List.map_filter tokenEngine
                   (filter (\<lambda>tok. tokenBaseline tok = None) toks))
      else None)"
proof (induction toks arbitrary: target engines)
  case Nil
  show ?case by (simp add: List.map_filter_simps)
next
  case (Cons tok toks)
  show ?case
  proof (cases "tokenBaseline tok")
    case (Some valid)
    then show ?thesis
      using Cons.IH [of valid engines]
      by (simp add: tokenBaseline_def [symmetric] tokenValid_def List.map_filter_simps)
  next
    case None
    show ?thesis
    proof (cases "matchEngine tok")
      case noEngine: None
      with None have "\<not> tokenValid tok"
        by (simp add: tokenValid_def tokenEngine_def)
      with None noEngine show ?thesis
        by (simp add: tokenBaseline_def [symmetric])
    next
      case (Some en)
      obtain engine name where en: "en = (engine, name)" by (cases en)
      let ?e = "\<lparr> Name = name, Version = drop (length engine) tok \<rparr>"
      from Some en have te: "tokenEngine tok = Some ?e"
        by (simp add: tokenEngine_def)
      show ?thesis
      proof (cases "drop (length engine) tok = []")
        case True
        with None te have "\<not> tokenValid tok"
          by (simp add: tokenValid_def)
        with None Some en True show ?thesis
          by (simp add: tokenBaseline_def [symmetric])
      next
        case False
        with None te have "tokenValid tok"
          by (simp add: tokenValid_def)
        with None Some en False te show ?thesis
          using Cons.IH [of target "engines @ [?e]"]
          by (simp add: tokenBaseline_def [symmetric] List.map_filter_simps)
      qed
    qed
  qed
qed

lemmas targets_eval = parseTargets_def splitWithEmptyCheck_def validTargets_def ToLower_def
  lowerByte_def matchEngine_def validEngines_def HasPrefix_def

text \<open>
  C4. \<open>parseTargets\<close> succeeds exactly when every token is valid, and then returns the
  last baseline among the tokens and the engine constraints of the other tokens in the
  order of the tokens, duplicates included: what a token contributes depends on the token
  alone. \<open>es2018,chrome80\<close> and \<open>chrome80,es2018\<close> both give the baseline ES2018 and the
  constraint chrome 80, and \<open>chrome\<close>, an engine name without a version, is an error.
\<close>

theorem parseTargets_per_token:
  "(case parseTargets q toks arg of Inl err \<Rightarrow> None | Inr r \<Rightarrow> Some r) = targetsSpec toks
   \<and> parseTargets q (splitWithEmptyCheck ''es2018,chrome80'' CHR '','') arg
       = Inr (ES2018, [\<lparr> Name = EngineChrome, Version = ''80'' \<rparr>])
   \<and> parseTargets q (splitWithEmptyCheck ''chrome80,es2018'' CHR '','') arg
       = Inr (ES2018, [\<lparr> Name = EngineChrome, Version = ''80'' \<rparr>])
   \<and> parseTargets q (splitWithEmptyCheck ''chrome'' CHR '','') arg
       = Inl (MakeErrorWithNote
           (''Target '' @ q ''chrome'' @ '' is missing a version number in '' @ q arg) [])"
proof -
  have "(case parseTargets q toks arg of Inl err \<Rightarrow> None | Inr r \<Rightarrow> Some r) = targetsSpec toks"
    unfolding parseTargets_def targetsSpec_def
    using parseTargets_loop_spec [of q toks arg DefaultTarget "[]"] by simp
  moreover have "parseTargets q (splitWithEmptyCheck ''es2018,chrome80'' CHR '','') arg
       = Inr (ES2018, [\<lparr> Name = EngineChrome, Version = ''80'' \<rparr>])"
    by (simp add: targets_eval)
  moreover have "parseTargets q (splitWithEmptyCheck ''chrome80,es2018'' CHR '','') arg
       = Inr (ES2018, [\<lparr> Name = EngineChrome, Version = ''80'' \<rparr>])"
    by (simp add: targets_eval)
  moreover have "parseTargets q (splitWithEmptyCheck ''chrome'' CHR '','') arg
       = Inl (MakeErrorWithNote
           (''Target '' @ q ''chrome'' @ '' is missing a version number in '' @ q arg) [])"
    by (simp add: targets_eval)
  ultimately show ?thesis by blast
qed

lemma parseTargets_mixed_tokens:
  "parseTargets quoteASCII [''es5'', ''node12'', ''ES2017'', ''node12'', ''ios13.1''] []
     = Inr (ES2017, [\<lparr> Name = EngineNode, Version = ''12'' \<rparr>,
                     \<lparr> Name = EngineNode, Version = ''12'' \<rparr>,
                     \<lparr> Name = EngineIOS, Version = ''13.1'' \<rparr>])"
  by code_simp

theorem parseTargets_per_token_witness:
  "targetsSpec [''es5'', ''node12'', ''ES2017'', ''node12'', ''ios13.1'']
     = Some (ES2017, [\<lparr> Name = EngineNode, Version = ''12'' \<rparr>,
                      \<lparr> Name = EngineNode, Version = ''12'' \<rparr>,
                      \<lparr> Name = EngineIOS, Version = ''13.1'' \<rparr>])"
  using parseTargets_per_token
    [of quoteASCII "[''es5'', ''node12'', ''ES2017'', ''node12'', ''ios13.1'']" "[]"]
  by (simp add: parseTargets_mixed_tokens)

section \<open>The note for an invalid target\<close>

lemma parseTargets_loop_stops:
  "list_all tokenValid pre \<Longrightarrow>
   parseTargets_loop q (pre @ tok # post) arg target engines =
   parseTargets_loop q (tok # post) arg
     (last (target # List.map_filter tokenBaseline pre))
     (engines @ List.map_filter tokenEngine (filter (\<lambda>tok. tokenBaseline tok = None) pre))"
proof (induction pre arbitrary: target engines)
  case Nil
  show ?case by (simp add: List.map_filter_simps)
next
  case (Cons a pre)
  show ?case
  proof (cases "tokenBaseline a")
    case (Some valid)
    with Cons.prems show ?thesis
      using Cons.IH [of valid engines]
      by (simp add: tokenBaseline_def [symmetric] List.map_filter_simps)
  next
    case None
    with Cons.prems obtain e where e: "tokenEngine a = Some e" "Version e \<noteq> []"
      by (auto simp: tokenValid_def split: option.splits)
    then obtain engine name where m: "matchEngine a = Some (engine, name)"
      "e = \<lparr> Name = name, Version = drop (length engine) a \<rparr>"
      by (auto simp: tokenEngine_def split: option.splits)
    with None e Cons.prems show ?thesis
      using Cons.IH [of target "engines @ [e]"]
      by (simp add: tokenBaseline_def [symmetric] List.map_filter_simps)
  qed
qed

lemma validTargetsNote_sorted:
  assumes "\<forall>key \<in> fst ` set validEngines. q (key @ ''N'') = quoteASCII (key @ ''N'')"
  shows "validTargetsNote q = validTargetsNote quoteASCII"
  using assms by (simp add: validTargetsNote_def validEngines_def)

lemma validTargetsNote_ascii:
  \<open>validTargetsNote quoteASCII =
     ''Valid values are "chromeN", "edgeN", "esN", "firefoxN", "iosN", "nodeN", or "safariN" where N is a version number.''\<close>
  by code_simp

text \<open>
  C8 (as amended). For a token that is neither a baseline nor an engine, reached after
  valid tokens only, \<open>parseTargets\<close> returns the error \<open>Invalid target\<close> whose note lists
  every valid form, the baseline pattern \<open>"esN"\<close> and each of the six engine names
  followed by \<open>N\<close>, all seven in alphabetical order: \<open>"esN"\<close> is the third, after
  \<open>"edgeN"\<close>. The quoting is assumed to put the six engine forms between double quotes, as
  Go does.
\<close>

theorem parseTargets_invalid_note:
  assumes "\<forall>key \<in> fst ` set validEngines. q (key @ ''N'') = quoteASCII (key @ ''N'')"
    and "list_all tokenValid pre"
    and "tokenBaseline tok = None" and "tokenEngine tok = None"
  shows \<open>parseTargets q (pre @ tok # post) arg =
     Inl \<lparr> Text = ''Invalid target '' @ q tok @ '' in '' @ q arg,
           Note = ''Valid values are "chromeN", "edgeN", "esN", "firefoxN", "iosN", "nodeN", or "safariN" where N is a version number.'' \<rparr>\<close>
proof -
  from assms(4) have "matchEngine tok = None"
    by (cases "matchEngine tok") (auto simp: tokenEngine_def)
  with assms(3) show ?thesis
    unfolding parseTargets_def parseTargets_loop_stops [OF assms(2)]
    by (simp add: tokenBaseline_def [symmetric] MakeErrorWithNote_def
          validTargetsNote_sorted [OF assms(1)] validTargetsNote_ascii)
qed

theorem parseTargets_invalid_note_witness:
  \<open>parseTargets quoteASCII [''es2020'', ''opera12'', ''chrome80''] ''--target=es2020,opera12,chrome80'' =
     Inl \<lparr> Text = ''Invalid target "opera12" in "--target=es2020,opera12,chrome80"'',
           Note = ''Valid values are "chromeN", "edgeN", "esN", "firefoxN", "iosN", "nodeN", or "safariN" where N is a version number.'' \<rparr>\<close>
proof -
  have h2: "list_all tokenValid [''es2020'']"
    by (simp add: tokenValid_def tokenBaseline_def validTargets_def ToLower_def lowerByte_def)
  have h3: "tokenBaseline ''opera12'' = None"
    by (simp add: tokenBaseline_def validTargets_def ToLower_def lowerByte_def)
  have h4: "tokenEngine ''opera12'' = None"
    by (simp add: tokenEngine_def matchEngine_def validEngines_def HasPrefix_def)
  from parseTargets_invalid_note [of quoteASCII "[''es2020'']" "''opera12''" "[''chrome80'']"
      "''--target=es2020,opera12,chrome80''", OF _ h2 h3 h4]
  show ?thesis
    by (simp add: quoteASCII_def)
qed

text \<open>
  C8 as stated fails: for the token \<open>foo\<close> the note starts with \<open>"chromeN"\<close>, not with
  the baseline pattern.
\<close>

theorem esN_not_listed_first:
  \<open>parseTargets quoteASCII [''foo''] ''--target=foo'' =
     Inl \<lparr> Text = ''Invalid target "foo" in "--target=foo"'',
           Note = ''Valid values are "chromeN", "edgeN", "esN", "firefoxN", "iosN", "nodeN", or "safariN" where N is a version number.'' \<rparr>\<close>
  by code_simp

section \<open>The file loader and stdin\<close>

lemma parseArg_loader_file:
  "pl ''file'' = Inr LoaderFile \<Longrightarrow>
   parseArg q pl kind ''--loader=file'' s =
     Fail (MakeErrorWithNote (q ''--loader=file'' @ '' is not supported when transforming stdin'')
       fileLoaderNote)"
  by (simp add: parseArg_def HasPrefix_def fileLoaderNote_def)

lemma stepP_if_fileI:
  "(x = LoaderFile \<Longrightarrow> stepP P F N a) \<Longrightarrow> (x \<noteq> LoaderFile \<Longrightarrow> stepP P F N b)
     \<Longrightarrow> stepP P F N (if x = LoaderFile then a else b)"
  by simp

lemma parseArg_stdin_loader:
  "stdinLoaderNotFile s \<Longrightarrow>
   stepP stdinLoaderNotFile (\<lambda>_. True) True (parseArg q pl kind arg s)"
  unfolding parseArg_def Let_def invalidFlag_def
  apply (intro stepP_if_fileI stepP_intros)
  apply (auto simp add: set_defs stdinLoaderNotFile_def emptyStdinOptions_def split: option.splits)
  done

text \<open>
  C10. Where the loader parser maps \<open>file\<close> to the file loader, the argument
  \<open>--loader=file\<close> is an error whatever the pointers are, with the message
  \<open>"--loader=file" is not supported when transforming stdin\<close>, and every argument list
  that contains it makes \<open>parseOptionsForRun\<close> return an error and no options, in
  build mode as in transform mode. Whatever the loader parser, no build options that
  \<open>parseOptionsForRun\<close> returns have the file loader as the loader of stdin.
\<close>

theorem loader_file_rejected:
  "(pl ''file'' = Inr LoaderFile \<longrightarrow>
      parseArg q pl kind ''--loader=file'' s =
        Fail (MakeErrorWithNote
          (q ''--loader=file'' @ '' is not supported when transforming stdin'') fileLoaderNote)
      \<and> (''--loader=file'' \<in> set osArgs \<longrightarrow>
           (\<exists>e. parseOptionsForRun q pl osArgs = Returns (None, None, None, Some e))))
   \<and> (\<forall>b i. buildOf (parseOptionsForRun q pl osArgs) = Some b \<longrightarrow> Stdin b = Some i
         \<longrightarrow> StdinOptions.Loader i \<noteq> LoaderFile)"
proof -
  let ?b0 = "newBuildOptions\<lparr>LogLimit := 6, LogLevel := LogLevelInfo, Write := True\<rparr>"
  let ?t0 = "newTransformOptions\<lparr>TransformOptions.LogLimit := 6,
               TransformOptions.LogLevel := LogLevelInfo\<rparr>"
  let ?sb = "\<lparr> buildOpts = Some ?b0, transformOpts = None,
               hasBareSourceMapFlag = False, metafile = None \<rparr>"
  let ?st = "\<lparr> buildOpts = None, transformOpts = Some ?t0,
               hasBareSourceMapFlag = False, metafile = None \<rparr>"
  have rejected: "\<exists>e. parseOptionsForRun q pl osArgs = Returns (None, None, None, Some e)"
    if isFile: "pl ''file'' = Inr LoaderFile" and mem: "''--loader=file'' \<in> set osArgs"
  proof -
    have fails: "\<exists>e. parseArg q pl kindInternal ''--loader=file'' s = Fail e" for s
      using parseArg_loader_file [of pl q kindInternal s] isFile by simp
    show ?thesis
    proof (cases "buildMode osArgs")
      case True
      from loop_fails_at [OF mem fails, of ?sb] True show ?thesis
        by (auto simp: parseOptionsForRun_def parseOptionsImpl_def)
    next
      case False
      from loop_fails_at [OF mem fails, of ?st] False show ?thesis
        by (auto simp: parseOptionsForRun_def parseOptionsImpl_def)
    qed
  qed
  have never: "StdinOptions.Loader i \<noteq> LoaderFile"
    if run: "buildOf (parseOptionsForRun q pl osArgs) = Some b" and i: "Stdin b = Some i" for b i
  proof (cases "buildMode osArgs")
    case True
    obtain e s' where loop: "parseOptionsImpl_loop q pl kindInternal osArgs ?sb = Returns (e, s')"
      using loop_returns [of ?sb q pl kindInternal osArgs] by auto
    have "stdinLoaderNotFile ?sb"
      by (simp add: stdinLoaderNotFile_def newBuildOptions_def)
    from loop_invariant [of stdinLoaderNotFile q pl kindInternal, OF parseArg_stdin_loader this loop]
    have inv: "stdinLoaderNotFile s'" .
    from run True loop obtain b' where "buildOpts s' = Some b'"
      "b = inlineWithoutOutput b' (hasBareSourceMapFlag s')"
      by (cases e) (auto simp: parseOptionsForRun_def parseOptionsImpl_def buildOf_def)
    with inv i show ?thesis
      by (auto simp: stdinLoaderNotFile_def inlineWithoutOutput_def split: if_splits)
  next
    case False
    obtain e s' where loop: "parseOptionsImpl_loop q pl kindInternal osArgs ?st = Returns (e, s')"
      using loop_returns [of ?st q pl kindInternal osArgs] by auto
    with run False show ?thesis
      by (cases e; cases "transformOpts s'")
         (auto simp: parseOptionsForRun_def parseOptionsImpl_def buildOf_def split: if_splits)
  qed
  from parseArg_loader_file [of pl q kind s] rejected never show ?thesis
    by blast
qed

lemma sampleLoader_file: "sampleLoader ''file'' = Inr LoaderFile"
  by (simp add: sampleLoader_def)

theorem loader_file_rejected_witness:
  "sampleLoader ''file'' = Inr LoaderFile
   \<and> ''--loader=file'' \<in> set [''app.js'', ''--loader=file'']
   \<and> (\<exists>e. parseOptionsForRun quoteASCII sampleLoader [''app.js'', ''--loader=file'']
          = Returns (None, None, None, Some e))"
  using loader_file_rejected [of sampleLoader quoteASCII kindInternal
      "\<lparr> buildOpts = None, transformOpts = None, hasBareSourceMapFlag = False, metafile = None \<rparr>"
      "[''app.js'', ''--loader=file'']"]
    sampleLoader_file
  by simp


section \<open>A flag with one dash\<close>

lemma no_two_dashes_eq [simp]:
  "\<not> HasPrefix arg ''--'' \<Longrightarrow> (arg = CHR ''-'' # CHR ''-'' # p) = False"
  by (auto simp: HasPrefix_def)

lemma no_two_dashes_prefix [simp]:
  "\<not> HasPrefix arg ''--'' \<Longrightarrow> HasPrefix arg (CHR ''-'' # CHR ''-'' # p) = False"
  by (auto simp: HasPrefix_def elim!: prefixE)

lemma dash_not_quote:
  "HasPrefix arg ''-'' \<Longrightarrow> HasPrefix arg (CHR 0x27 # p) = False"
  by (auto simp: HasPrefix_def elim!: prefixE)

lemma single_dash_default:
  assumes "HasPrefix arg ''-''" and "\<not> HasPrefix arg ''--''"
  shows "parseArg q pl kind arg s = invalidFlag q arg s"
  unfolding parseArg_def
  using assms by (simp add: dash_not_quote)

lemma recognized_fix:
  "recognizedSingleDash arg = fst (singleDashFix arg)"
  by (auto simp: recognizedSingleDash_def singleDashFix_def flagName_def Let_def
      split: option.splits)


lemma IndexByte_bound: "IndexByte xs c = Some i \<Longrightarrow> i < length xs"
  by (induction xs arbitrary: i) (auto split: if_splits)

lemma IndexByte_append:
  "c \<notin> set xs \<Longrightarrow> IndexByte (xs @ c # ys) c = Some (length xs)"
  by (induction xs) auto

lemma colon_names_no_colon: "name \<in> set colon \<Longrightarrow> CHR '':'' \<notin> set name"
  by (auto simp: colon_def)

lemma equals_names_no_equals: "name \<in> set equals \<Longrightarrow> CHR ''='' \<notin> set name"
  by (auto simp: equals_def)

lemma swapped_colon:
  assumes "IndexByte r c = Some i" and "d \<notin> set (take i r)"
  shows "IndexByte (take i r @ d # drop (i + 1) r) d = Some i"
    and "take i (take i r @ d # drop (i + 1) r) = take i r"
proof -
  from IndexByte_bound [OF assms(1)] have len: "length (take i r) = i" by simp
  from IndexByte_append [OF assms(2), of "drop (i + 1) r"] len
  show "IndexByte (take i r @ d # drop (i + 1) r) d = Some i" by simp
  from len show "take i (take i r @ d # drop (i + 1) r) = take i r" by simp
qed

lemma wellFormedFlag_dashes:
  "wellFormedFlag (CHR ''-'' # CHR ''-'' # x) =
     (x \<in> set bare
      \<or> (case IndexByte x CHR ''='' of Some i \<Rightarrow> take i x \<in> set equals | None \<Rightarrow> False)
      \<or> (case IndexByte x CHR '':'' of Some j \<Rightarrow> take j x \<in> set colon | None \<Rightarrow> False))"
  by (auto simp: wellFormedFlag_def HasPrefix_def split: option.splits)

lemma singleDashFix_wellFormed:
  assumes "fst (singleDashFix (CHR ''-'' # r))"
  shows "wellFormedFlag (snd (singleDashFix (CHR ''-'' # r)))"
proof -
  have B: "wellFormedFlag (''-'' @ take (Suc i) (CHR ''-'' # r) @ '':'' @ drop (Suc i + 1) (CHR ''-'' # r))"
    if "IndexByte r CHR ''='' = Some i" "take i r \<in> set colon" for i
    using swapped_colon [OF that(1) colon_names_no_colon [OF that(2)]] that(2)
    by (simp add: wellFormedFlag_dashes)
  have D: "wellFormedFlag (''-'' @ take (Suc j) (CHR ''-'' # r) @ ''='' @ drop (Suc j + 1) (CHR ''-'' # r))"
    if "IndexByte r CHR '':'' = Some j" "take j r \<in> set equals" for j
    using swapped_colon [OF that(1) equals_names_no_equals [OF that(2)]] that(2)
    by (simp add: wellFormedFlag_dashes)
  from assms B D show ?thesis
    by (auto simp: singleDashFix_def Let_def wellFormedFlag_dashes split: option.splits if_splits)
qed


lemma recognized_not_short:
  "recognizedSingleDash arg \<Longrightarrow> arg \<noteq> ''-o'' \<and> arg \<noteq> ''-v''"
  by (auto simp: recognizedSingleDash_def flagName_def bare_def)

text \<open>
  C9. An argument that starts with exactly one dash and is recognized is an error in
  every state: the message is \<open>Invalid build flag\<close> or \<open>Invalid transform flag\<close> with
  the argument, and the note tells to use the corrected form instead, which is a well
  formed flag with two dashes (the argument with one more dash, its separator changed to
  the one its name takes). For \<open>-bundle\<close> the note suggests \<open>--bundle\<close>.
\<close>

theorem single_dash_suggestion:
  "(HasPrefix arg ''-'' \<and> \<not> HasPrefix arg ''--'' \<and> recognizedSingleDash arg \<longrightarrow>
      parseArg q pl kind arg s =
        Fail \<lparr> Text = (if buildOpts s \<noteq> None then ''Invalid build flag: ''
                        else ''Invalid transform flag: '') @ q arg,
               Note = twoDashesNote q (snd (singleDashFix arg)) arg \<rparr>
      \<and> wellFormedFlag (snd (singleDashFix arg)))
   \<and> parseArg q pl kind ''-bundle'' s =
        Fail \<lparr> Text = (if buildOpts s \<noteq> None then ''Invalid build flag: ''
                        else ''Invalid transform flag: '') @ q ''-bundle'',
               Note = twoDashesNote q ''--bundle'' ''-bundle'' \<rparr>"
proof -
  have general: "parseArg q pl kind arg s =
        Fail \<lparr> Text = (if buildOpts s \<noteq> None then ''Invalid build flag: ''
                        else ''Invalid transform flag: '') @ q arg,
               Note = twoDashesNote q (snd (singleDashFix arg)) arg \<rparr>
      \<and> wellFormedFlag (snd (singleDashFix arg))"
    if one: "HasPrefix arg ''-''" and two: "\<not> HasPrefix arg ''--''"
      and known: "recognizedSingleDash arg" for arg
  proof -
    from one obtain r where arg: "arg = CHR ''-'' # r"
      by (auto simp: HasPrefix_def elim!: prefixE)
    from known have valid: "fst (singleDashFix arg)"
      by (simp add: recognized_fix)
    with singleDashFix_wellFormed [of r] arg
    have wf: "wellFormedFlag (snd (singleDashFix arg))" by simp
    from valid have nt: "singleDashNote q arg = twoDashesNote q (snd (singleDashFix arg)) arg"
      by (cases "singleDashFix arg") (simp add: singleDashNote_def twoDashesNote_def)
    from recognized_not_short [OF known] one two
    have "flagNote q arg = singleDashNote q arg"
      by (simp add: flagNote_def)
    with nt single_dash_default [OF one two, of q pl kind s] wf show ?thesis
      by (simp add: invalidFlag_def MakeErrorWithNote_def)
  qed
  have ex: "HasPrefix ''-bundle'' ''-''" "\<not> HasPrefix ''-bundle'' ''--''"
    "recognizedSingleDash ''-bundle''" "snd (singleDashFix ''-bundle'') = ''--bundle''"
    by (simp_all add: HasPrefix_def recognizedSingleDash_def bare_def singleDashFix_def)
  from general [OF ex(1,2,3)] ex(4) general show ?thesis
    by simp
qed

theorem single_dash_suggestion_witness:
  \<open>HasPrefix ''-outfile:x'' ''-'' \<and> \<not> HasPrefix ''-outfile:x'' ''--''
   \<and> recognizedSingleDash ''-outfile:x''
   \<and> parseArg quoteASCII sampleLoader kindInternal ''-outfile:x''
        \<lparr> buildOpts = Some newBuildOptions, transformOpts = None,
          hasBareSourceMapFlag = False, metafile = None \<rparr>
      = Fail \<lparr> Text = ''Invalid build flag: "-outfile:x"'',
               Note = ''Use "--outfile=x" instead of "-outfile:x". Flags are always specified with two dashes instead of one dash.'' \<rparr>\<close>
proof -
  have h: "HasPrefix ''-outfile:x'' ''-''" "\<not> HasPrefix ''-outfile:x'' ''--''"
    "recognizedSingleDash ''-outfile:x''"
    by (simp_all add: HasPrefix_def recognizedSingleDash_def flagName_def equals_def)
  have fx: "snd (singleDashFix ''-outfile:x'') = ''--outfile=x''"
    by (simp add: singleDashFix_def equals_def colon_def bare_def)
  from single_dash_suggestion [of "''-outfile:x''" quoteASCII sampleLoader kindInternal
      "\<lparr> buildOpts = Some newBuildOptions, transformOpts = None,
         hasBareSourceMapFlag = False, metafile = None \<rparr>"] h fx
  show ?thesis
    by (simp add: twoDashesNote_def quoteASCII_def)
qed


section \<open>The first invalid flag\<close>

lemma verdictOf_simps:
  "verdictOf (Fail e) = Rejected e"
  "verdictOf NilDereference = Crashes"
  "verdictOf (Next s') = Accepted"
  "verdictOf (case r of Next s' \<Rightarrow> Next (g s') | Fail e \<Rightarrow> Fail e | NilDereference \<Rightarrow> NilDereference)
     = verdictOf r"
  "verdictOf (set_either fb ft s) =
     (if buildOpts s = None \<and> transformOpts s = None then Crashes else Accepted)"
  "verdictOf (set_build fb s) = (if buildOpts s = None then Crashes else Accepted)"
  "verdictOf (set_transform ft s) = (if transformOpts s = None then Crashes else Accepted)"
  by (auto simp: verdictOf_def set_either_def set_build_def set_transform_def
      split: step.splits option.splits)

lemma verdictOf_if: "verdictOf (if c then a else b) = (if c then verdictOf a else verdictOf b)"
  by simp

lemma verdict_pointers_only:
  assumes "(buildOpts s2 = None) = (buildOpts s = None)"
    and "(transformOpts s2 = None) = (transformOpts s = None)"
  shows "verdictOf (parseArg q pl kind arg s2) = verdictOf (parseArg q pl kind arg s)"
  unfolding parseArg_def Let_def invalidFlag_def
  by (simp only: verdictOf_if verdictOf_simps option.case_distrib [of verdictOf]
        sum.case_distrib [of verdictOf] prod.case_distrib [of verdictOf] assms)


lemma loop_stops_at_first:
  assumes same: "(buildOpts s = None) = (buildOpts s0 = None)"
      "(transformOpts s = None) = (transformOpts s0 = None)"
    and some: "buildOpts s0 \<noteq> None \<or> transformOpts s0 \<noteq> None"
    and pre: "\<forall>a \<in> set pre. verdictOf (parseArg q pl kind a s0) = Accepted"
    and bad: "verdictOf (parseArg q pl kind bad s0) = Rejected err"
  shows "\<exists>s'. parseOptionsImpl_loop q pl kind (pre @ bad # post) s = Returns (Some err, s')"
  using same pre
proof (induction pre arbitrary: s)
  case Nil
  from verdict_pointers_only [OF Nil.prems(1,2), of q pl kind bad] bad
  have "verdictOf (parseArg q pl kind bad s) = Rejected err" by simp
  then show ?case
    by (cases "parseArg q pl kind bad s") (simp_all add: verdictOf_def)
next
  case (Cons a pre)
  from verdict_pointers_only [OF Cons.prems(1,2), of q pl kind a] Cons.prems(3)
  have "verdictOf (parseArg q pl kind a s) = Accepted" by simp
  then obtain s1 where s1: "parseArg q pl kind a s = Next s1"
    by (cases "parseArg q pl kind a s") (simp_all add: verdictOf_def)
  from some Cons.prems(1,2) have "buildOpts s \<noteq> None \<or> transformOpts s \<noteq> None" by simp
  from parseArg_keeps_pointers [OF this, of q pl kind a] s1 Cons.prems(1,2)
  have "(buildOpts s1 = None) = (buildOpts s0 = None)"
    "(transformOpts s1 = None) = (transformOpts s0 = None)"
    by (simp_all add: stepP_def)
  from Cons.IH [OF this] Cons.prems(3) s1 show ?case by simp
qed

text \<open>
  C3. When the arguments before an argument are all valid flags of the mode and the
  argument itself is invalid, \<open>parseOptionsForRun\<close> returns the error of that argument
  and nothing else: no build options, no metafile path, no transform options. The
  arguments after it play no part, so an error of a later flag is never reported.
\<close>

theorem first_invalid_flag_only:
  assumes "osArgs = pre @ bad # post"
    and "\<forall>a \<in> set pre. flagVerdict q pl (buildMode osArgs) a = Accepted"
    and "flagVerdict q pl (buildMode osArgs) bad = Rejected err"
  shows "parseOptionsForRun q pl osArgs = Returns (None, None, None, Some err)"
proof -
  let ?s0 = "startState (buildMode osArgs)"
  have some: "buildOpts ?s0 \<noteq> None \<or> transformOpts ?s0 \<noteq> None"
    by (simp add: startState_def)
  from loop_stops_at_first [of ?s0 ?s0 pre q pl kindInternal bad err post, OF refl refl some]
    assms(2,3)
  obtain s' where "parseOptionsImpl_loop q pl kindInternal osArgs ?s0 = Returns (Some err, s')"
    unfolding flagVerdict_def assms(1) by blast
  then show ?thesis
    by (cases "buildMode osArgs")
       (simp_all add: parseOptionsForRun_def parseOptionsImpl_def startState_def)
qed

lemma verdict_examples:
  "flagVerdict quoteASCII sampleLoader True ''app.js'' = Accepted"
  "flagVerdict quoteASCII sampleLoader True ''--minify'' = Accepted"
  \<open>flagVerdict quoteASCII sampleLoader True ''--format=amd''
     = Rejected \<lparr> Text = ''Invalid value "amd" in "--format=amd"'',
                   Note = ''Valid values are "iife", "cjs", or "esm".'' \<rparr>\<close>
  by (simp_all add: flagVerdict_def verdictOf_def parseArg_def HasPrefix_def startState_def
        set_either_def set_build_def invalidValue_def MakeErrorWithNote_def quoteASCII_def)

theorem first_invalid_flag_only_witness:
  \<open>parseOptionsForRun quoteASCII sampleLoader
       [''app.js'', ''--minify'', ''--format=amd'', ''--charset=latin1'']
     = Returns (None, None, None,
         Some \<lparr> Text = ''Invalid value "amd" in "--format=amd"'',
                 Note = ''Valid values are "iife", "cjs", or "esm".'' \<rparr>)\<close>
proof (rule first_invalid_flag_only
    [where pre = "[''app.js'', ''--minify'']" and bad = "''--format=amd''"
       and post = "[''--charset=latin1'']"])
  show "[''app.js'', ''--minify'', ''--format=amd'', ''--charset=latin1'']
      = [''app.js'', ''--minify''] @ ''--format=amd'' # [''--charset=latin1'']"
    by simp
  show "\<forall>a \<in> set [''app.js'', ''--minify'']. flagVerdict quoteASCII sampleLoader
      (buildMode [''app.js'', ''--minify'', ''--format=amd'', ''--charset=latin1'']) a = Accepted"
    using verdict_examples by (simp add: HasPrefix_def)
  show \<open>flagVerdict quoteASCII sampleLoader
      (buildMode [''app.js'', ''--minify'', ''--format=amd'', ''--charset=latin1''])
      ''--format=amd''
      = Rejected \<lparr> Text = ''Invalid value "amd" in "--format=amd"'',
                    Note = ''Valid values are "iife", "cjs", or "esm".'' \<rparr>\<close>
    using verdict_examples by (simp add: HasPrefix_def)
qed


end
